theory Spec2Isabelle
  imports Main
begin

section \<open>Values, errors and the response envelope\<close>

text \<open>
  An ObjectId is a natural number. A route parameter arrives as a string: either one
  that Mongoose casts to an ObjectId (\<open>Hex i\<close>, the id it denotes) or any other string
  (\<open>Malformed s\<close>). \<open>isValidObjectId\<close> is Mongoose's test of the first case.
\<close>

type_synonym objectid = nat

datatype param = Hex objectid | Malformed string

fun isValidObjectId :: "param \<Rightarrow> bool" where
  "isValidObjectId (Hex i) = True"
| "isValidObjectId (Malformed s) = False"

text \<open>
  What a controller throws: an \<open>ApiError\<close> with its status code and message, the
  \<open>CastError\<close> of a Mongoose query on a malformed id, a JavaScript \<open>TypeError\<close>, or the
  rejection of a library promise with its message.
\<close>

datatype error = ApiError nat string | CastError | TypeError | LibraryError string

datatype json = JBool bool | JNum int | JParam param

text \<open>
  Modelled from the spec: the class \<open>ApiResponse\<close> (utils/ApiResponse.js) is not among
  the sources. The spec gives the success envelope as
  \<open>{statusCode, data, message, success:true}\<close>; the message is \<open>None\<close> where the
  controller passes none.
\<close>

record 'a ApiResponse =
  statusCode :: nat
  data :: 'a
  message :: "string option"
  success :: bool

definition new_ApiResponse :: "nat \<Rightarrow> 'a \<Rightarrow> string option \<Rightarrow> 'a ApiResponse" where
  "new_ApiResponse c d m = \<lparr>statusCode = c, data = d, message = m, success = True\<rparr>"

text \<open>\<open>res.status(c).json(b)\<close>: the HTTP status and the JSON body.\<close>

record 'a response =
  status :: nat
  body :: "'a ApiResponse"

definition res_status_json :: "nat \<Rightarrow> 'a ApiResponse \<Rightarrow> 'a response" where
  "res_status_json c b = \<lparr>status = c, body = b\<rparr>"

section \<open>Collections\<close>

text \<open>
  A collection is the list of its documents in insertion order. \<open>findOne\<close> returns the
  first document that matches; \<open>findByIdAndDelete\<close> and \<open>findByIdAndUpdate\<close> act on
  the first document with the given \<open>_id\<close> and on no other; \<open>new_ObjectId\<close> is an id
  that no document of the collection has.
\<close>

definition findOne :: "('a \<Rightarrow> bool) \<Rightarrow> 'a list \<Rightarrow> 'a option" where
  "findOne q xs = List.find q xs"

fun deleteOne :: "('a \<Rightarrow> bool) \<Rightarrow> 'a list \<Rightarrow> 'a list" where
  "deleteOne q [] = []"
| "deleteOne q (x # xs) = (if q x then xs else x # deleteOne q xs)"

fun updateOne :: "('a \<Rightarrow> bool) \<Rightarrow> ('a \<Rightarrow> 'a) \<Rightarrow> 'a list \<Rightarrow> 'a list" where
  "updateOne q f [] = []"
| "updateOne q f (x # xs) = (if q x then f x # xs else x # updateOne q f xs)"

definition new_ObjectId :: "objectid list \<Rightarrow> objectid" where
  "new_ObjectId used = Suc (fold max used 0)"

text \<open>
  Modelled from the spec: the schemas of Like, Tweet, Comment, Video, Playlist and
  Subscription (models/*.model.js) are not among the sources. Each document carries the
  fields that the controllers read and write, under the controllers' names; a field that
  a document may lack is an option, \<open>None\<close> when it is missing. The media fields of a
  video (file, thumbnail, description, duration), which the projections only pass on, and
  \<open>updatedAt\<close> are left out. Filters and documents of these collections reach the
  store with the fields the controllers give them.
\<close>

record like =
  like_id :: objectid
  like_video :: "objectid option"
  like_comment :: "objectid option"
  like_tweet :: "objectid option"
  likedBy :: "objectid option"
  commentedBy :: "objectid option"
  tweetedBy :: "objectid option"
  like_createdAt :: nat

record user =
  user_id :: objectid
  userName :: string
  email :: string
  fullName :: string
  avatar :: string
  coverImage :: string
  password :: string
  refreshToken :: "string option"

record video =
  video_id :: objectid
  video_owner :: "objectid option"
  video_title :: string
  video_views :: int
  video_isPublished :: bool
  video_createdAt :: nat

record tweet =
  tweet_id :: objectid
  tweet_content :: string
  tweet_owner :: "objectid option"
  tweet_createdAt :: nat

record comment =
  comment_id :: objectid
  comment_content :: string
  comment_video :: "objectid option"
  comment_owner :: "objectid option"
  comment_createdAt :: nat

record playlist =
  playlist_id :: objectid
  playlist_name :: string
  playlist_description :: string
  playlist_owner :: "objectid option"
  playlist_videos :: "objectid list"

record subscription =
  subscription_id :: objectid
  channel :: "objectid option"
  subscriber :: "objectid option"

record store =
  users :: "user list"
  videos :: "video list"
  tweets :: "tweet list"
  comments :: "comment list"
  likes :: "like list"
  playlists :: "playlist list"
  subscriptions :: "subscription list"

text \<open>
  Mongoose casts a string to the ObjectId it denotes where a query or a constructor needs
  one, and throws a \<open>CastError\<close> on any other string.
\<close>

definition castObjectId :: "param \<Rightarrow> error + objectid" where
  "castObjectId p = (case p of Hex i \<Rightarrow> Inr i | Malformed x \<Rightarrow> Inl CastError)"

section \<open>like.controller.js\<close>

text \<open>
  \<open>validateObjectId(id, type)\<close> throws \<open>ApiError(400, `Invalid ${type} ID`)\<close> on an id
  that is not valid; the result is the error thrown, if any.
\<close>

definition validateObjectId :: "param \<Rightarrow> string \<Rightarrow> error option" where
  "validateObjectId ident type =
     (if \<not> isValidObjectId ident then Some (ApiError 400 (''Invalid '' @ type @ '' ID''))
      else None)"

text \<open>
  The three toggles. Each takes the clock reading \<open>now\<close> (the \<open>createdAt\<close> of a
  document it creates), the store, \<open>req.user?._id\<close> (\<open>None\<close> when the request carries no
  identity) and the route parameter, and returns what it throws or sends, with the store
  it leaves. A filter field whose value is \<open>undefined\<close> reaches the store as \<open>null\<close>
  and matches the documents that lack the field, which is equality on options here.
\<close>

definition toggleVideoLike ::
  "nat \<Rightarrow> store \<Rightarrow> objectid option \<Rightarrow> param
     \<Rightarrow> (error + (string \<times> json) list response) \<times> store" where
  "toggleVideoLike now s req_user videoId =
     (case validateObjectId videoId ''video'' of
        Some e \<Rightarrow> (Inl e, s)
      | None \<Rightarrow>
         (case videoId of
            Malformed x \<Rightarrow> (Inl CastError, s)
          | Hex v \<Rightarrow>
             (case findOne (\<lambda>l. like_video l = Some v \<and> likedBy l = req_user) (likes s) of
                Some likedAlready \<Rightarrow>
                  (Inr (res_status_json 200
                          (new_ApiResponse 200 [(''isLiked'', JBool False)] None)),
                   s\<lparr>likes := deleteOne (\<lambda>l. like_id l = like_id likedAlready) (likes s)\<rparr>)
              | None \<Rightarrow>
                  (Inr (res_status_json 200
                          (new_ApiResponse 200 [(''isLiked'', JBool True)] None)),
                   s\<lparr>likes := likes s @
                      [\<lparr>like_id = new_ObjectId (map like_id (likes s)),
                        like_video = Some v, like_comment = None, like_tweet = None,
                        likedBy = req_user, commentedBy = None, tweetedBy = None,
                        like_createdAt = now\<rparr>]\<rparr>))))"

definition toggleCommentLike ::
  "nat \<Rightarrow> store \<Rightarrow> objectid option \<Rightarrow> param
     \<Rightarrow> (error + (string \<times> json) list response) \<times> store" where
  "toggleCommentLike now s req_user commentId =
     (case validateObjectId commentId ''comment'' of
        Some e \<Rightarrow> (Inl e, s)
      | None \<Rightarrow>
         (case commentId of
            Malformed x \<Rightarrow> (Inl CastError, s)
          | Hex c \<Rightarrow>
             (case findOne (\<lambda>l. like_comment l = Some c \<and> commentedBy l = req_user) (likes s) of
                Some likedAlready \<Rightarrow>
                  (Inr (res_status_json 200
                          (new_ApiResponse 200 [(''isCommented'', JBool False)] None)),
                   s\<lparr>likes := deleteOne (\<lambda>l. like_id l = like_id likedAlready) (likes s)\<rparr>)
              | None \<Rightarrow>
                  (Inr (res_status_json 200
                          (new_ApiResponse 200 [(''isCommented'', JBool True)] None)),
                   s\<lparr>likes := likes s @
                      [\<lparr>like_id = new_ObjectId (map like_id (likes s)),
                        like_video = None, like_comment = Some c, like_tweet = None,
                        likedBy = None, commentedBy = req_user, tweetedBy = None,
                        like_createdAt = now\<rparr>]\<rparr>))))"

definition toggleTweetLike ::
  "nat \<Rightarrow> store \<Rightarrow> objectid option \<Rightarrow> param
     \<Rightarrow> (error + (string \<times> json) list response) \<times> store" where
  "toggleTweetLike now s req_user tweetId =
     (case validateObjectId tweetId ''tweet'' of
        Some e \<Rightarrow> (Inl e, s)
      | None \<Rightarrow>
         (case tweetId of
            Malformed x \<Rightarrow> (Inl CastError, s)
          | Hex t \<Rightarrow>
             (case findOne (\<lambda>l. like_tweet l = Some t \<and> tweetedBy l = req_user) (likes s) of
                Some likedAlready \<Rightarrow>
                  (Inr (res_status_json 200
                          (new_ApiResponse 200
                             [(''tweetId'', JParam tweetId), (''isTweeted'', JBool False)] None)),
                   s\<lparr>likes := deleteOne (\<lambda>l. like_id l = like_id likedAlready) (likes s)\<rparr>)
              | None \<Rightarrow>
                  (Inr (res_status_json 200
                          (new_ApiResponse 200 [(''isTweeted'', JBool True)] None)),
                   s\<lparr>likes := likes s @
                      [\<lparr>like_id = new_ObjectId (map like_id (likes s)),
                        like_video = None, like_comment = None, like_tweet = Some t,
                        likedBy = None, commentedBy = None, tweetedBy = req_user,
                        like_createdAt = now\<rparr>]\<rparr>))))"

text \<open>
  The stored state of a (user, video) pair: the like records of the pair, how many there
  are, and whether the existence query of the toggle finds one.
\<close>

definition videoLikes :: "store \<Rightarrow> objectid \<Rightarrow> objectid \<Rightarrow> like list" where
  "videoLikes s u v = filter (\<lambda>l. like_video l = Some v \<and> likedBy l = Some u) (likes s)"

definition videoLikeCount :: "store \<Rightarrow> objectid \<Rightarrow> objectid \<Rightarrow> nat" where
  "videoLikeCount s u v = length (videoLikes s u v)"

definition videoLiked :: "store \<Rightarrow> objectid \<Rightarrow> objectid \<Rightarrow> bool" where
  "videoLiked s u v =
     (findOne (\<lambda>l. like_video l = Some v \<and> likedBy l = Some u) (likes s) \<noteq> None)"

definition commentLikes :: "store \<Rightarrow> objectid \<Rightarrow> objectid \<Rightarrow> like list" where
  "commentLikes s u c =
     filter (\<lambda>l. like_comment l = Some c \<and> commentedBy l = Some u) (likes s)"

definition tweetLikes :: "store \<Rightarrow> objectid \<Rightarrow> objectid \<Rightarrow> like list" where
  "tweetLikes s u t = filter (\<lambda>l. like_tweet l = Some t \<and> tweetedBy l = Some u) (likes s)"

text \<open>
  The same for a (user, comment) and a (user, tweet) pair, as the existence queries of
  \<open>toggleCommentLike\<close> and \<open>toggleTweetLike\<close> find the records of the pair.
\<close>

definition commentLikeCount :: "store \<Rightarrow> objectid \<Rightarrow> objectid \<Rightarrow> nat" where
  "commentLikeCount s u c = length (commentLikes s u c)"

definition commentLiked :: "store \<Rightarrow> objectid \<Rightarrow> objectid \<Rightarrow> bool" where
  "commentLiked s u c =
     (findOne (\<lambda>l. like_comment l = Some c \<and> commentedBy l = Some u) (likes s) \<noteq> None)"

definition tweetLikeCount :: "store \<Rightarrow> objectid \<Rightarrow> objectid \<Rightarrow> nat" where
  "tweetLikeCount s u t = length (tweetLikes s u t)"

definition tweetLiked :: "store \<Rightarrow> objectid \<Rightarrow> objectid \<Rightarrow> bool" where
  "tweetLiked s u t =
     (findOne (\<lambda>l. like_tweet l = Some t \<and> tweetedBy l = Some u) (likes s) \<noteq> None)"

text \<open>What a controller sent, when it sent anything: the \<open>data\<close> of the envelope.\<close>

definition sent_data :: "(error + 'a response) \<Rightarrow> 'a option" where
  "sent_data r = (case r of Inl e \<Rightarrow> None | Inr x \<Rightarrow> Some (data (body x)))"

definition sent_status :: "(error + 'a response) \<Rightarrow> nat option" where
  "sent_status r = (case r of Inl e \<Rightarrow> None | Inr x \<Rightarrow> Some (status x))"

text \<open>
  The values of an aggregation expression that the listings compare: \<open>req.user?._id\<close>
  inside a pipeline is an ObjectId, or \<open>null\<close> when the request has no identity
  (\<open>undefined\<close> in an array is serialised as \<open>null\<close>). The path \<open>$likes.likedBy\<close>
  collects the \<open>likedBy\<close> of the joined likes that have the field.
\<close>

datatype bson = BNull | BObjectId objectid

definition to_bson :: "objectid option \<Rightarrow> bson" where
  "to_bson x = (case x of None \<Rightarrow> BNull | Some i \<Rightarrow> BObjectId i)"

definition likedBy_path :: "like list \<Rightarrow> bson list" where
  "likedBy_path ls = map BObjectId (List.map_filter likedBy ls)"

definition in_array :: "bson \<Rightarrow> bson list \<Rightarrow> bool" where
  "in_array x xs = (x \<in> set xs)"

text \<open>
  \<open>getLikedVideos\<close>: the likes whose \<open>likedBy\<close> is the caller, each joined to its video
  and the video's owner, the two \<open>$unwind\<close> stages dropping what has no partner, newest
  like first. Without an identity, \<open>new ObjectId(undefined)\<close> is a new id, which no like
  holds. The projection asks for \<open>username\<close> and \<open>avatar.url\<close>, which no user document
  has (the schema's fields are \<open>userName\<close> and the string \<open>avatar\<close>).
\<close>

record ownerDetails_view =
  od_fullName :: string




section \<open>tweet.controller.js\<close>

text \<open>
  A body field is \<open>None\<close> when the request lacks it. \<open>!content\<close> holds of a missing
  field and of the empty string.
\<close>

definition falsy :: "string option \<Rightarrow> bool" where
  "falsy x = (case x of None \<Rightarrow> True | Some v \<Rightarrow> v = [])"

text \<open>
  The ownership test \<open>entity.owner.toString() !== req.user?._id.toString()\<close>: the left
  side throws a \<open>TypeError\<close> on a document without owner; the right side is
  \<open>undefined\<close>, and so different, without an identity.
\<close>

definition owner_differs :: "objectid option \<Rightarrow> objectid option \<Rightarrow> error + bool" where
  "owner_differs owner req_user =
     (case owner of None \<Rightarrow> Inl TypeError | Some v \<Rightarrow> Inr (req_user \<noteq> Some v))"

text \<open>
  \<open>createTweet\<close>. \<open>Tweet.create\<close> returns the document it stored, so the test
  \<open>!tweet\<close> after it does not fire.
\<close>

definition createTweet ::
  "nat \<Rightarrow> store \<Rightarrow> objectid option \<Rightarrow> string option \<Rightarrow> (error + tweet response) \<times> store" where
  "createTweet now s req_user content =
     (case content of
        None \<Rightarrow> (Inl (ApiError 400 ''Content is required''), s)
      | Some c \<Rightarrow>
         if c = [] then (Inl (ApiError 400 ''Content is required''), s)
         else
           (let tweet = \<lparr>tweet_id = new_ObjectId (map tweet_id (tweets s)), tweet_content = c,
                         tweet_owner = req_user, tweet_createdAt = now\<rparr>
            in (Inr (res_status_json 200
                       (new_ApiResponse 200 tweet (Some ''Tweet created successfully''))),
                s\<lparr>tweets := tweets s @ [tweet]\<rparr>)))"

definition updateTweet ::
  "store \<Rightarrow> objectid option \<Rightarrow> string option \<Rightarrow> param \<Rightarrow> (error + tweet response) \<times> store" where
  "updateTweet s req_user content tweetId =
     (case content of
        None \<Rightarrow> (Inl (ApiError 400 ''Content is required''), s)
      | Some c \<Rightarrow>
         if c = [] then (Inl (ApiError 400 ''Content is required''), s)
         else
           (case (if \<not> isValidObjectId tweetId then Inl (ApiError 400 ''Invalid tweetId'')
                  else castObjectId tweetId) of
              Inl e \<Rightarrow> (Inl e, s)
            | Inr i \<Rightarrow>
               (case findOne (\<lambda>t. tweet_id t = i) (tweets s) of
                  None \<Rightarrow> (Inl (ApiError 404 ''Tweet not found''), s)
                | Some tweet \<Rightarrow>
                   (case owner_differs (tweet_owner tweet) req_user of
                      Inl e \<Rightarrow> (Inl e, s)
                    | Inr True \<Rightarrow> (Inl (ApiError 400 ''Only the owner can edit their tweet''), s)
                    | Inr False \<Rightarrow>
                       (let ts = updateOne (\<lambda>t. tweet_id t = i) (\<lambda>t. t\<lparr>tweet_content := c\<rparr>)
                                   (tweets s)
                        in (case findOne (\<lambda>t. tweet_id t = i) ts of
                              None \<Rightarrow>
                                (Inl (ApiError 500 ''Failed to update tweet. Please try again.''),
                                 s\<lparr>tweets := ts\<rparr>)
                            | Some newTweet \<Rightarrow>
                                (Inr (res_status_json 200
                                        (new_ApiResponse 200 newTweet
                                           (Some ''Tweet updated successfully''))),
                                 s\<lparr>tweets := ts\<rparr>)))))))"

definition deleteTweet ::
  "store \<Rightarrow> objectid option \<Rightarrow> param \<Rightarrow> (error + (string \<times> json) list response) \<times> store" where
  "deleteTweet s req_user tweetId =
     (case (if \<not> isValidObjectId tweetId then Inl (ApiError 400 ''Invalid tweetId'')
            else castObjectId tweetId) of
        Inl e \<Rightarrow> (Inl e, s)
      | Inr i \<Rightarrow>
         (case findOne (\<lambda>t. tweet_id t = i) (tweets s) of
            None \<Rightarrow> (Inl (ApiError 404 ''Tweet not found''), s)
          | Some tweet \<Rightarrow>
             (case owner_differs (tweet_owner tweet) req_user of
                Inl e \<Rightarrow> (Inl e, s)
              | Inr True \<Rightarrow> (Inl (ApiError 400 ''Only the owner can delete their tweet''), s)
              | Inr False \<Rightarrow>
                 (Inr (res_status_json 200
                         (new_ApiResponse 200 [(''tweetId'', JParam tweetId)]
                            (Some ''Tweet deleted successfully''))),
                  s\<lparr>tweets := deleteOne (\<lambda>t. tweet_id t = i) (tweets s)\<rparr>))))"

text \<open>
  \<open>getUserTweets\<close>. The lookup of the owner projects \<open>username\<close> and \<open>avatar.url\<close>,
  which no user document has, so what is left of the owner is its \<open>_id\<close>.
\<close>

record tweet_view =
  tv_id :: objectid
  tv_content :: string
  tv_ownerDetails :: "objectid option"
  tv_likesCount :: nat
  tv_createdAt :: nat
  tv_isLiked :: bool

definition first_of :: "'a list \<Rightarrow> 'a option" where
  "first_of xs = (case xs of [] \<Rightarrow> None | x # r \<Rightarrow> Some x)"

definition tweet_row :: "store \<Rightarrow> objectid option \<Rightarrow> tweet \<Rightarrow> tweet_view" where
  "tweet_row s req_user t =
     (let ownerDetails = map user_id (filter (\<lambda>u. tweet_owner t = Some (user_id u)) (users s));
          likeDetails = filter (\<lambda>l. like_tweet l = Some (tweet_id t)) (likes s)
      in \<lparr>tv_id = tweet_id t, tv_content = tweet_content t,
          tv_ownerDetails = first_of ownerDetails,
          tv_likesCount = length likeDetails,
          tv_createdAt = tweet_createdAt t,
          tv_isLiked = (if in_array (to_bson req_user) (likedBy_path likeDetails)
                        then True else False)\<rparr>)"

definition getUserTweets ::
  "store \<Rightarrow> objectid option \<Rightarrow> param \<Rightarrow> error + tweet_view list response" where
  "getUserTweets s req_user userId =
     (case (if \<not> isValidObjectId userId then Inl (ApiError 400 ''Invalid userId'')
            else castObjectId userId) of
        Inl e \<Rightarrow> Inl e
      | Inr i \<Rightarrow>
         (let matched = filter (\<lambda>t. tweet_owner t = Some i) (tweets s);
              rows = map (tweet_row s req_user) matched;
              sorted = sort_key (\<lambda>r. - int (tv_createdAt r)) rows
          in Inr (res_status_json 200
                    (new_ApiResponse 200 sorted (Some ''Tweets fetched successfully'')))))"

section \<open>comment.controller.js\<close>

text \<open>
  What \<open>parseInt(x, 10)\<close> returns: \<open>NaN\<close>, an infinity (\<open>Infinity True\<close> the positive
  one), or a finite number, which has no fraction. \<open>parseInt\<close> is the language's; the
  listing is modelled from its results.
\<close>

datatype number = NaN | Infinity bool | Num int

text \<open>
  \<open>const { page = 1, limit = 10 } = req.query\<close> followed by \<open>parseInt(page, 10)\<close>: a
  query parameter is \<open>None\<close> when the request lacks it and else what \<open>parseInt\<close>
  reads from it; the default stands in for a missing parameter only.
\<close>

definition query_number :: "number option \<Rightarrow> int \<Rightarrow> number" where
  "query_number q dflt = (case q of None \<Rightarrow> Num dflt | Some x \<Rightarrow> x)"

text \<open>
  Modelled from the spec: \<open>aggregatePaginate\<close> comes from a plugin of the Comment schema;
  neither is among the sources. The spec: "Pagination (page, limit) is a generic
  post-aggregation stage: skip (page-1)*limit, take limit, and separately compute total
  count for metadata." The spec gives no result for a page below 1, a negative limit,
  \<open>NaN\<close> or an infinity; the model rejects these.
\<close>

record 'a paginated =
  docs :: "'a list"
  totalDocs :: nat
  page :: int
  limit :: int

definition aggregatePaginate :: "'a list \<Rightarrow> number \<Rightarrow> number \<Rightarrow> error + 'a paginated" where
  "aggregatePaginate xs pg lim =
     (case pg of
        NaN \<Rightarrow> Inl (LibraryError ''page'')
      | Infinity b \<Rightarrow> Inl (LibraryError ''page'')
      | Num p \<Rightarrow>
         (case lim of
            NaN \<Rightarrow> Inl (LibraryError ''limit'')
          | Infinity b \<Rightarrow> Inl (LibraryError ''limit'')
          | Num l \<Rightarrow>
             if p < 1 then Inl (LibraryError ''page'')
             else if l < 0 then Inl (LibraryError ''limit'')
             else Inr \<lparr>docs = take (nat l) (drop (nat ((p - 1) * l)) xs),
                       totalDocs = length xs, page = p, limit = l\<rparr>))"

text \<open>
  \<open>getVideoComments\<close>. The projection of the owner asks for \<open>username\<close>, \<open>fullName\<close>
  and \<open>avatar.url\<close>; a user document has the second only. \<open>Video.findById\<close> throws
  a \<open>CastError\<close> on a malformed id.

  The \<open>$match\<close> stage calls \<open>mongoose.Types.ObjectId(videoId)\<close> without \<open>new\<close>, where
  every other controller writes \<open>new mongoose.Types.ObjectId(...)\<close>. What the bare call
  does depends on the Mongoose release, which the sources do not fix: up to Mongoose 6 the
  constructor can be called as a function and returns the id (\<open>Callable\<close>); from
  Mongoose 7 on it is a class, and the call throws a \<open>TypeError\<close> (\<open>ClassOnly\<close>).
\<close>

datatype constructor = Callable | ClassOnly

definition ObjectId_call :: "constructor \<Rightarrow> param \<Rightarrow> error + objectid" where
  "ObjectId_call ctor p =
     (case ctor of ClassOnly \<Rightarrow> Inl TypeError | Callable \<Rightarrow> castObjectId p)"

record comment_view =
  cv_id :: objectid
  cv_content :: string
  cv_createdAt :: nat
  cv_likesCount :: nat
  cv_owner :: "ownerDetails_view option"
  cv_isLiked :: bool

definition comment_row :: "store \<Rightarrow> objectid option \<Rightarrow> comment \<Rightarrow> comment_view" where
  "comment_row s req_user c =
     (let owner = filter (\<lambda>u. comment_owner c = Some (user_id u)) (users s);
          joined = filter (\<lambda>l. like_comment l = Some (comment_id c)) (likes s)
      in \<lparr>cv_id = comment_id c, cv_content = comment_content c,
          cv_createdAt = comment_createdAt c,
          cv_likesCount = length joined,
          cv_owner = map_option (\<lambda>u. \<lparr>od_fullName = fullName u\<rparr>) (first_of owner),
          cv_isLiked = in_array (to_bson req_user) (likedBy_path joined)\<rparr>)"

definition commentsAggregate :: "store \<Rightarrow> objectid option \<Rightarrow> objectid \<Rightarrow> comment_view list" where
  "commentsAggregate s req_user v =
     sort_key (\<lambda>r. - int (cv_createdAt r))
       (map (comment_row s req_user) (filter (\<lambda>c. comment_video c = Some v) (comments s)))"

definition getVideoComments ::
  "constructor \<Rightarrow> store \<Rightarrow> objectid option \<Rightarrow> param \<Rightarrow> number option \<Rightarrow> number option
     \<Rightarrow> error + comment_view paginated response" where
  "getVideoComments ctor s req_user videoId qpage qlimit =
     (case castObjectId videoId of
        Inl e \<Rightarrow> Inl e
      | Inr v \<Rightarrow>
         (case findOne (\<lambda>x. video_id x = v) (videos s) of
            None \<Rightarrow> Inl (ApiError 404 ''Video not found'')
          | Some video \<Rightarrow>
             (case ObjectId_call ctor videoId of
                Inl e \<Rightarrow> Inl e
              | Inr vid \<Rightarrow>
                 (case aggregatePaginate (commentsAggregate s req_user vid)
                         (query_number qpage 1) (query_number qlimit 10) of
                    Inl e \<Rightarrow> Inl e
                  | Inr found \<Rightarrow>
                     Inr (res_status_json 200
                            (new_ApiResponse 200 found
                               (Some ''Comments fetched successfully'')))))))"

text \<open>The number of stored comments on a video.\<close>

definition commentCount :: "store \<Rightarrow> objectid \<Rightarrow> nat" where
  "commentCount s v = length (filter (\<lambda>c. comment_video c = Some v) (comments s))"

text \<open>
  The ownership test of the comment controllers reads \<open>req.user._id\<close> without the
  optional chaining, so it throws a \<open>TypeError\<close> without an identity as well.
\<close>

definition comment_owner_differs :: "objectid option \<Rightarrow> objectid option \<Rightarrow> error + bool" where
  "comment_owner_differs owner req_user =
     (case owner of
        None \<Rightarrow> Inl TypeError
      | Some v \<Rightarrow> (case req_user of None \<Rightarrow> Inl TypeError | Some u \<Rightarrow> Inr (v \<noteq> u)))"

definition updateComment ::
  "store \<Rightarrow> objectid option \<Rightarrow> string option \<Rightarrow> param
     \<Rightarrow> (error + comment option response) \<times> store" where
  "updateComment s req_user content commentId =
     (case content of
        None \<Rightarrow> (Inl (ApiError 400 ''Content is required''), s)
      | Some c \<Rightarrow>
         if c = [] then (Inl (ApiError 400 ''Content is required''), s)
         else
           (case castObjectId commentId of
              Inl e \<Rightarrow> (Inl e, s)
            | Inr i \<Rightarrow>
               (case findOne (\<lambda>x. comment_id x = i) (comments s) of
                  None \<Rightarrow> (Inl (ApiError 404 ''Comment not found''), s)
                | Some comment \<Rightarrow>
                   (case comment_owner_differs (comment_owner comment) req_user of
                      Inl e \<Rightarrow> (Inl e, s)
                    | Inr True \<Rightarrow>
                        (Inl (ApiError 403 ''Only the comment owner can update this comment''), s)
                    | Inr False \<Rightarrow>
                       (let cs = updateOne (\<lambda>x. comment_id x = i)
                                   (\<lambda>x. x\<lparr>comment_content := c\<rparr>) (comments s)
                        in (Inr (res_status_json 200
                                   (new_ApiResponse 200 (findOne (\<lambda>x. comment_id x = i) cs)
                                      (Some ''Comment updated successfully''))),
                            s\<lparr>comments := cs\<rparr>))))))"

text \<open>
  After deleting the comment, \<open>deleteComment\<close> runs
  \<open>Comment.deleteMany({ comment: commentId, likedBy: req.user._id })\<close> on the comments
  themselves. No comment document has a field \<open>comment\<close> or \<open>likedBy\<close>, so the filter,
  sent as written, matches none.
\<close>

definition deleteMany :: "('a \<Rightarrow> bool) \<Rightarrow> 'a list \<Rightarrow> 'a list" where
  "deleteMany q xs = filter (\<lambda>x. \<not> q x) xs"

definition deleteComment ::
  "store \<Rightarrow> objectid option \<Rightarrow> param \<Rightarrow> (error + (string \<times> json) list response) \<times> store" where
  "deleteComment s req_user commentId =
     (case castObjectId commentId of
        Inl e \<Rightarrow> (Inl e, s)
      | Inr i \<Rightarrow>
         (case findOne (\<lambda>c. comment_id c = i) (comments s) of
            None \<Rightarrow> (Inl (ApiError 404 ''Comment not found''), s)
          | Some comment \<Rightarrow>
             (case comment_owner_differs (comment_owner comment) req_user of
                Inl e \<Rightarrow> (Inl e, s)
              | Inr True \<Rightarrow>
                  (Inl (ApiError 403 ''Only the comment owner can delete this comment''), s)
              | Inr False \<Rightarrow>
                 (Inr (res_status_json 200
                         (new_ApiResponse 200 [(''commentId'', JParam commentId)]
                            (Some ''Comment deleted successfully''))),
                  s\<lparr>comments := deleteMany (\<lambda>c. False)
                                   (deleteOne (\<lambda>c. comment_id c = i) (comments s))\<rparr>))))"

section \<open>playlist.controller.js\<close>

definition updatePlaylist ::
  "store \<Rightarrow> objectid option \<Rightarrow> string option \<Rightarrow> string option \<Rightarrow> param
     \<Rightarrow> (error + playlist option response) \<times> store" where
  "updatePlaylist s req_user name description playlistId =
     (case name of
        None \<Rightarrow> (Inl (ApiError 400 ''Name and description are required''), s)
      | Some n \<Rightarrow>
         (case description of
            None \<Rightarrow> (Inl (ApiError 400 ''Name and description are required''), s)
          | Some d \<Rightarrow>
             if n = [] \<or> d = []
             then (Inl (ApiError 400 ''Name and description are required''), s)
             else
               (case (if \<not> isValidObjectId playlistId
                      then Inl (ApiError 400 ''Invalid PlaylistId'')
                      else castObjectId playlistId) of
                  Inl e \<Rightarrow> (Inl e, s)
                | Inr i \<Rightarrow>
                   (case findOne (\<lambda>x. playlist_id x = i) (playlists s) of
                      None \<Rightarrow> (Inl (ApiError 404 ''Playlist not found''), s)
                    | Some playlist \<Rightarrow>
                       (case owner_differs (playlist_owner playlist) req_user of
                          Inl e \<Rightarrow> (Inl e, s)
                        | Inr True \<Rightarrow>
                            (Inl (ApiError 400 ''Only the owner can edit the playlist''), s)
                        | Inr False \<Rightarrow>
                           (let ps = updateOne (\<lambda>x. playlist_id x = playlist_id playlist)
                                       (\<lambda>x. x\<lparr>playlist_name := n, playlist_description := d\<rparr>)
                                       (playlists s)
                            in (Inr (res_status_json 200
                                       (new_ApiResponse 200
                                          (findOne (\<lambda>x. playlist_id x = playlist_id playlist) ps)
                                          (Some ''Playlist updated successfully''))),
                                s\<lparr>playlists := ps\<rparr>)))))))"

definition deletePlaylist ::
  "store \<Rightarrow> objectid option \<Rightarrow> param \<Rightarrow> (error + (string \<times> json) list response) \<times> store" where
  "deletePlaylist s req_user playlistId =
     (case (if \<not> isValidObjectId playlistId then Inl (ApiError 400 ''Invalid PlaylistId'')
            else castObjectId playlistId) of
        Inl e \<Rightarrow> (Inl e, s)
      | Inr i \<Rightarrow>
         (case findOne (\<lambda>x. playlist_id x = i) (playlists s) of
            None \<Rightarrow> (Inl (ApiError 404 ''Playlist not found''), s)
          | Some playlist \<Rightarrow>
             (case owner_differs (playlist_owner playlist) req_user of
                Inl e \<Rightarrow> (Inl e, s)
              | Inr True \<Rightarrow> (Inl (ApiError 400 ''Only the owner can delete the playlist''), s)
              | Inr False \<Rightarrow>
                 (Inr (res_status_json 200
                         (new_ApiResponse 200 [] (Some ''Playlist deleted successfully''))),
                  s\<lparr>playlists :=
                      deleteOne (\<lambda>x. playlist_id x = playlist_id playlist) (playlists s)\<rparr>))))"

text \<open>\<open>$addToSet\<close> appends a value to an array that does not hold it yet.\<close>

definition addToSet :: "'a \<Rightarrow> 'a list \<Rightarrow> 'a list" where
  "addToSet x xs = (if x \<in> set xs then xs else xs @ [x])"

definition addVideoToPlaylist ::
  "store \<Rightarrow> objectid option \<Rightarrow> param \<Rightarrow> param
     \<Rightarrow> (error + playlist option response) \<times> store" where
  "addVideoToPlaylist s req_user playlistId videoId =
     (if \<not> isValidObjectId playlistId \<or> \<not> isValidObjectId videoId
      then (Inl (ApiError 400 ''Invalid PlaylistId or VideoId''), s)
      else
        (case castObjectId playlistId of
           Inl e \<Rightarrow> (Inl e, s)
         | Inr i \<Rightarrow>
            (case castObjectId videoId of
               Inl e \<Rightarrow> (Inl e, s)
             | Inr v \<Rightarrow>
                (case findOne (\<lambda>x. playlist_id x = i) (playlists s) of
                   None \<Rightarrow> (Inl (ApiError 404 ''Playlist not found''), s)
                 | Some playlist \<Rightarrow>
                    (case findOne (\<lambda>x. video_id x = v) (videos s) of
                       None \<Rightarrow> (Inl (ApiError 404 ''Video not found''), s)
                     | Some video \<Rightarrow>
                        (case owner_differs (playlist_owner playlist) req_user of
                           Inl e \<Rightarrow> (Inl e, s)
                         | Inr True \<Rightarrow>
                             (Inl (ApiError 400
                                     ''Only the owner can add videos to their playlist''), s)
                         | Inr False \<Rightarrow>
                            (let ps = updateOne (\<lambda>x. playlist_id x = playlist_id playlist)
                                        (\<lambda>x. x\<lparr>playlist_videos := addToSet v (playlist_videos x)\<rparr>)
                                        (playlists s)
                             in (Inr (res_status_json 200
                                        (new_ApiResponse 200
                                           (findOne (\<lambda>x. playlist_id x = playlist_id playlist) ps)
                                           (Some ''Video added to playlist successfully''))),
                                 s\<lparr>playlists := ps\<rparr>))))))))"

text \<open>The membership entries of a video in the stored playlist with the given id.\<close>

definition membership :: "store \<Rightarrow> objectid \<Rightarrow> objectid \<Rightarrow> nat option" where
  "membership s i v =
     map_option (\<lambda>x. count_list (playlist_videos x) v)
       (findOne (\<lambda>x. playlist_id x = i) (playlists s))"

section \<open>dashbord.controller.js\<close>

definition getUserId :: "objectid option \<Rightarrow> error + objectid" where
  "getUserId req_user =
     (case req_user of
        None \<Rightarrow> Inl (ApiError 401 ''User not authenticated'')
      | Some userId \<Rightarrow> Inr userId)"

text \<open>
  \<open>result[0]?.field || 0\<close>: the field of the first group, 0 when there is no group or
  the field is 0. A \<open>$group\<close> with \<open>_id: null\<close> yields one group when a document
  reaches it and none otherwise.
\<close>

definition or_zero :: "int option \<Rightarrow> int" where
  "or_zero x = (case x of None \<Rightarrow> 0 | Some n \<Rightarrow> if n = 0 then 0 else n)"

definition getTotalSubscribers :: "store \<Rightarrow> objectid \<Rightarrow> int" where
  "getTotalSubscribers s userId =
     (let matched = filter (\<lambda>x. channel x = Some userId) (subscriptions s);
          result = (if matched = [] then [] else [sum_list (map (\<lambda>x. 1) matched)])
      in or_zero (first_of result))"

record videoStats =
  totalLikes :: int
  totalViews :: int
  totalVideos :: int

definition getVideoStats :: "store \<Rightarrow> objectid \<Rightarrow> videoStats" where
  "getVideoStats s userId =
     (let matched = filter (\<lambda>x. video_owner x = Some userId) (videos s);
          projected = map (\<lambda>x. (int (length (filter (\<lambda>l. like_video l = Some (video_id x))
                                                  (likes s))),
                                 video_views x)) matched;
          result = (if projected = [] then []
                    else [\<lparr>totalLikes = sum_list (map fst projected),
                           totalViews = sum_list (map snd projected),
                           totalVideos = sum_list (map (\<lambda>x. 1) projected)\<rparr>])
      in \<lparr>totalLikes = or_zero (map_option totalLikes (first_of result)),
          totalViews = or_zero (map_option totalViews (first_of result)),
          totalVideos = or_zero (map_option totalVideos (first_of result))\<rparr>)"

definition getChannelStats ::
  "store \<Rightarrow> objectid option \<Rightarrow> error + (string \<times> json) list response" where
  "getChannelStats s req_user =
     (case getUserId req_user of
        Inl e \<Rightarrow> Inl e
      | Inr userId \<Rightarrow>
         (let totalSubscribers = getTotalSubscribers s userId;
              stats = getVideoStats s userId;
              channelStats = [(''totalSubscribers'', JNum totalSubscribers),
                              (''totalLikes'', JNum (totalLikes stats)),
                              (''totalViews'', JNum (totalViews stats)),
                              (''totalVideos'', JNum (totalVideos stats))]
          in Inr (res_status_json 200
                    (new_ApiResponse 200 channelStats
                       (Some ''Channel stats fetched successfully'')))))"

section \<open>user.model.js and user.controller.js\<close>

text \<open>
  \<open>bcrypt.compare(data, hash)\<close> rejects when \<open>data\<close> is missing and resolves to the
  verdict otherwise; \<open>verdict\<close> is bcrypt's comparison of a password with a hash.
\<close>

definition bcrypt_compare ::
  "(string \<Rightarrow> string \<Rightarrow> bool) \<Rightarrow> string option \<Rightarrow> string \<Rightarrow> error + bool" where
  "bcrypt_compare verdict d hash =
     (case d of
        None \<Rightarrow> Inl (LibraryError ''data and hash arguments required'')
      | Some p \<Rightarrow> Inr (verdict p hash))"

text \<open>
  What a method returns: \<open>undefined\<close> or a boolean. \<open>isPasswordCorrect\<close> awaits the
  comparison and has no \<open>return\<close>.
\<close>

datatype jsval = Undefined | Boolean bool

fun truthy :: "jsval \<Rightarrow> bool" where
  "truthy Undefined = False"
| "truthy (Boolean b) = b"

definition isPasswordCorrect ::
  "(string \<Rightarrow> string \<Rightarrow> bool) \<Rightarrow> user \<Rightarrow> string option \<Rightarrow> error + jsval" where
  "isPasswordCorrect verdict this pw =
     (case bcrypt_compare verdict pw (password this) of
        Inl e \<Rightarrow> Inl e
      | Inr b \<Rightarrow> Inr Undefined)"

text \<open>
  \<open>generateAccessToken\<close> and \<open>generateRefreshToken\<close> are assigned to
  \<open>userSchema.method\<close>, a function of the schema, not to \<open>userSchema.methods\<close>: a user
  document has neither, and calling one throws a \<open>TypeError\<close>.
  \<open>generateAccessAndRefreshTokens\<close> catches whatever its body throws and throws
  \<open>ApiError(500)\<close>.
\<close>

definition generateAccessToken :: "user \<Rightarrow> error + string" where
  "generateAccessToken this = Inl TypeError"

definition generateRefreshToken :: "user \<Rightarrow> error + string" where
  "generateRefreshToken this = Inl TypeError"

definition generateAccessAndRefreshTokens ::
  "store \<Rightarrow> objectid \<Rightarrow> (error + string \<times> string) \<times> store" where
  "generateAccessAndRefreshTokens s userId =
     (case (case findOne (\<lambda>x. user_id x = userId) (users s) of
              None \<Rightarrow> Inl TypeError
            | Some u \<Rightarrow>
               (case generateAccessToken u of
                  Inl e \<Rightarrow> Inl e
                | Inr accessToken \<Rightarrow>
                   (case generateRefreshToken u of
                      Inl e \<Rightarrow> Inl e
                    | Inr refresh \<Rightarrow>
                       Inr ((accessToken, refresh),
                            s\<lparr>users := updateOne (\<lambda>x. user_id x = userId)
                                          (\<lambda>x. x\<lparr>refreshToken := Some refresh\<rparr>) (users s)\<rparr>)))) of
        Inl e \<Rightarrow>
          (Inl (ApiError 500 ''Something went wrong while generating Refresh and Access token''),
           s)
      | Inr (tokens, s') \<Rightarrow> (Inr tokens, s'))"

record loggedIn =
  li_user :: "user option"
  li_refreshToken :: string
  li_accessToken :: string

record login_response =
  lr_cookies :: "(string \<times> string) list"
  lr_response :: "loggedIn response"

text \<open>
  \<open>loginUser\<close>, with \<open>email\<close>, \<open>userName\<close> and \<open>password\<close> of the request body. The
  schema declares \<open>lowercase\<close> and \<open>trim\<close> on \<open>userName\<close> and on \<open>email\<close>, and
  Mongoose applies both to the values of the filter of \<open>User.findOne\<close>; \<open>setters\<close> is
  what \<open>toLowerCase\<close> and \<open>trim\<close> of the language make of a string. The user sent
  back is the stored one without \<open>password\<close> and \<open>refreshToken\<close>, shown here with both
  blanked.
\<close>

definition loginUser ::
  "(string \<Rightarrow> string \<Rightarrow> bool) \<Rightarrow> (string \<Rightarrow> string) \<Rightarrow> store
     \<Rightarrow> string option \<Rightarrow> string option \<Rightarrow> string option
     \<Rightarrow> (error + login_response) \<times> store" where
  "loginUser verdict setters s em un pw =
     (if falsy un \<or> falsy em then (Inl (ApiError 400 ''UserName or Email Required''), s)
      else
        (case findOne (\<lambda>x. Some (userName x) = map_option setters un
                            \<or> Some (email x) = map_option setters em) (users s) of
           None \<Rightarrow> (Inl (ApiError 404 ''User does not exists''), s)
         | Some u \<Rightarrow>
            (case isPasswordCorrect verdict u pw of
               Inl e \<Rightarrow> (Inl e, s)
             | Inr isPasswordValid \<Rightarrow>
                if \<not> truthy isPasswordValid
                then (Inl (ApiError 401 ''Invalid user credentials''), s)
                else
                  (case generateAccessAndRefreshTokens s (user_id u) of
                     (Inl e, s') \<Rightarrow> (Inl e, s')
                   | (Inr (accessToken, refresh), s') \<Rightarrow>
                      (Inr \<lparr>lr_cookies = [(''accessToken'', accessToken),
                                          (''refreshToken'', refresh)],
                            lr_response = res_status_json 200
                              (new_ApiResponse 200
                                 \<lparr>li_user = map_option (\<lambda>x. x\<lparr>password := [], refreshToken := None\<rparr>)
                                              (findOne (\<lambda>x. user_id x = user_id u) (users s')),
                                  li_refreshToken = refresh, li_accessToken = accessToken\<rparr>
                                 (Some ''User logged in successfully''))\<rparr>,
                       s')))))"

section \<open>Observations and example stores\<close>

definition succeeded :: "(error + 'a) \<Rightarrow> bool" where
  "succeeded r = (case r of Inl e \<Rightarrow> False | Inr x \<Rightarrow> True)"

definition tweet_rows :: "(error + tweet_view list response) \<Rightarrow> tweet_view list" where
  "tweet_rows r = (case r of Inl e \<Rightarrow> [] | Inr x \<Rightarrow> data (body x))"

definition comment_rows :: "(error + comment_view paginated response) \<Rightarrow> comment_view list" where
  "comment_rows r = (case r of Inl e \<Rightarrow> [] | Inr x \<Rightarrow> docs (data (body x)))"

text \<open>
  The likes that the toggles create: a video with \<open>likedBy\<close>, a comment with
  \<open>commentedBy\<close>, or a tweet with \<open>tweetedBy\<close>, and no other target or user field.
\<close>

definition toggle_made :: "like \<Rightarrow> bool" where
  "toggle_made l =
     ((like_video l \<noteq> None \<and> like_comment l = None \<and> like_tweet l = None \<and>
         commentedBy l = None \<and> tweetedBy l = None)
      \<or> (like_comment l \<noteq> None \<and> like_video l = None \<and> like_tweet l = None \<and>
         likedBy l = None \<and> tweetedBy l = None)
      \<or> (like_tweet l \<noteq> None \<and> like_video l = None \<and> like_comment l = None \<and>
         likedBy l = None \<and> commentedBy l = None))"

text \<open>
  On a string of ASCII characters, what \<open>toLowerCase\<close> and \<open>trim\<close> make of it; the
  example requests are such strings.
\<close>

definition ascii_space :: "char \<Rightarrow> bool" where
  "ascii_space c = (of_char c \<in> set [9, 10, 11, 12, 13, 32 :: nat])"

definition ascii_lower :: "char \<Rightarrow> char" where
  "ascii_lower c =
     (if 65 \<le> (of_char c :: nat) \<and> (of_char c :: nat) \<le> 90
      then char_of (of_char c + 32 :: nat) else c)"

definition ascii_setters :: "string \<Rightarrow> string" where
  "ascii_setters x =
     rev (dropWhile ascii_space (rev (dropWhile ascii_space (map ascii_lower x))))"

definition empty_store :: store where
  "empty_store = \<lparr>users = [], videos = [], tweets = [], comments = [], likes = [],
                   playlists = [], subscriptions = []\<rparr>"

definition example_store :: store where
  "example_store =
     \<lparr>users = [\<lparr>user_id = 1, userName = ''alice'', email = ''alice@example.org'',
                 fullName = ''Alice'', avatar = ''a.png'', coverImage = [],
                 password = ''hash-a'', refreshToken = None\<rparr>,
               \<lparr>user_id = 2, userName = ''bob'', email = ''bob@example.org'',
                 fullName = ''Bob'', avatar = ''b.png'', coverImage = [],
                 password = ''hash-b'', refreshToken = None\<rparr>],
      videos = [\<lparr>video_id = 10, video_owner = Some 1, video_title = ''intro'',
                  video_views = 7, video_isPublished = True, video_createdAt = 3\<rparr>],
      tweets = [\<lparr>tweet_id = 20, tweet_content = ''hello'', tweet_owner = Some 1,
                  tweet_createdAt = 4\<rparr>],
      comments = [\<lparr>comment_id = 30, comment_content = ''first'', comment_video = Some 10,
                    comment_owner = Some 1, comment_createdAt = 5\<rparr>],
      likes = [\<lparr>like_id = 50, like_video = Some 10, like_comment = None, like_tweet = None,
                 likedBy = Some 2, commentedBy = None, tweetedBy = None, like_createdAt = 6\<rparr>],
      playlists = [\<lparr>playlist_id = 40, playlist_name = ''mix'', playlist_description = ''all'',
                     playlist_owner = Some 1, playlist_videos = []\<rparr>],
      subscriptions = [\<lparr>subscription_id = 60, channel = Some 1, subscriber = Some 2\<rparr>]\<rparr>"

text \<open>
  The example store with two likes, of the comment and of the tweet, that hold the user
  under \<open>likedBy\<close>.
\<close>

definition liked_store :: store where
  "liked_store =
     example_store
       \<lparr>likes := [\<lparr>like_id = 51, like_video = None, like_comment = Some 30,
                    like_tweet = None, likedBy = Some 2, commentedBy = None,
                    tweetedBy = None, like_createdAt = 6\<rparr>,
                  \<lparr>like_id = 52, like_video = None, like_comment = None,
                    like_tweet = Some 20, likedBy = Some 2, commentedBy = None,
                    tweetedBy = None, like_createdAt = 7\<rparr>]\<rparr>"

text \<open>The example store with two like records of one (user, video) pair.\<close>

definition doubled_store :: store where
  "doubled_store =
     example_store
       \<lparr>likes := [\<lparr>like_id = 50, like_video = Some 10, like_comment = None,
                    like_tweet = None, likedBy = Some 2, commentedBy = None,
                    tweetedBy = None, like_createdAt = 6\<rparr>,
                  \<lparr>like_id = 53, like_video = Some 10, like_comment = None,
                    like_tweet = None, likedBy = Some 2, commentedBy = None,
                    tweetedBy = None, like_createdAt = 7\<rparr>]\<rparr>"

text \<open>A store with one video and fifteen comments on it.\<close>

definition fifteen_comments :: store where
  "fifteen_comments =
     empty_store
       \<lparr>videos := [\<lparr>video_id = 10, video_owner = Some 1, video_title = ''intro'',
                     video_views = 0, video_isPublished = True, video_createdAt = 0\<rparr>],
        comments := map (\<lambda>k. \<lparr>comment_id = k, comment_content = ''c'',
                                comment_video = Some 10, comment_owner = Some 1,
                                comment_createdAt = k\<rparr>) [1..<16]\<rparr>"

section \<open>Collections: facts\<close>

lemma fold_max_ge_init: "(a::nat) \<le> fold max xs a"
  by (induction xs arbitrary: a) (auto intro: order_trans [OF max.cobounded2])

lemma fold_max_ge_elem: "x \<in> set xs \<Longrightarrow> (x::nat) \<le> fold max xs a"
proof (induction xs arbitrary: a)
  case Nil
  then show ?case by simp
next
  case (Cons y ys)
  show ?case
  proof (cases "x = y")
    case True
    have "y \<le> max y a" by simp
    also have "\<dots> \<le> fold max ys (max y a)" by (rule fold_max_ge_init)
    finally show ?thesis using True by simp
  next
    case False
    with Cons show ?thesis by simp
  qed
qed

lemma new_ObjectId_fresh: "new_ObjectId used \<notin> set used"
proof
  assume "new_ObjectId used \<in> set used"
  then have "new_ObjectId used \<le> fold max used 0" by (rule fold_max_ge_elem)
  then show False by (simp add: new_ObjectId_def)
qed

lemma findOne_append:
  "findOne q (xs @ ys) = (case findOne q xs of None \<Rightarrow> findOne q ys | Some x \<Rightarrow> Some x)"
  by (induction xs) (auto simp: findOne_def)

lemma findOne_None_iff: "findOne q xs = None \<longleftrightarrow> (\<forall>x\<in>set xs. \<not> q x)"
  by (auto simp: findOne_def find_None_iff)

lemma findOne_None_filter: "findOne q xs = None \<longleftrightarrow> filter q xs = []"
  by (simp add: findOne_None_iff filter_empty_conv)

lemma findOne_SomeD: "findOne q xs = Some x \<Longrightarrow> x \<in> set xs \<and> q x"
  by (auto simp: findOne_def find_Some_iff)

lemma findOne_filter: "findOne q xs = first_of (filter q xs)"
  by (induction xs) (auto simp: findOne_def first_of_def)

lemma deleteOne_none: "\<forall>x\<in>set xs. \<not> q x \<Longrightarrow> deleteOne q xs = xs"
  by (induction xs) auto

lemma deleteOne_append_last: "\<forall>x\<in>set xs. \<not> q x \<Longrightarrow> q y \<Longrightarrow> deleteOne q (xs @ [y]) = xs"
  by (induction xs) auto

lemma deleteOne_by_key:
  "distinct (map f xs) \<Longrightarrow> d \<in> set xs \<Longrightarrow> deleteOne (\<lambda>x. f x = f d) xs = remove1 d xs"
proof (induction xs)
  case Nil
  then show ?case by simp
next
  case (Cons x xs)
  then show ?case by (cases "x = d") (auto simp: image_iff)
qed

section \<open>The like toggle\<close>

lemma videoLiked_count: "videoLiked s u v \<longleftrightarrow> 0 < videoLikeCount s u v"
  by (simp add: videoLiked_def videoLikeCount_def videoLikes_def findOne_None_filter)

lemma commentLiked_count: "commentLiked s u c \<longleftrightarrow> 0 < commentLikeCount s u c"
  by (simp add: commentLiked_def commentLikeCount_def commentLikes_def findOne_None_filter)

lemma tweetLiked_count: "tweetLiked s u t \<longleftrightarrow> 0 < tweetLikeCount s u t"
  by (simp add: tweetLiked_def tweetLikeCount_def tweetLikes_def findOne_None_filter)

lemma findOne_filter_Nil: "filter q xs = [] \<Longrightarrow> findOne q xs = None"
  by (simp add: findOne_None_filter)

lemma findOne_filter_Cons: "filter q xs = d # ds \<Longrightarrow> findOne q xs = Some d"
  by (simp add: findOne_filter first_of_def)

lemma filter_Cons_mem:
  assumes "filter q xs = d # ds"
  shows "d \<in> set xs"
proof -
  have "d \<in> set (filter q xs)" using assms by simp
  then show ?thesis by simp
qed

lemma deleteOne_found:
  assumes "distinct (map f xs)" and "filter q xs = d # ds"
  shows "deleteOne (\<lambda>x. f x = f d) xs = remove1 d xs"
  using assms(1) filter_Cons_mem [OF assms(2)] by (rule deleteOne_by_key)

lemma set_deleteOne_subset: "set (deleteOne q xs) \<subseteq> set xs"
  by (induction xs) auto

lemma distinct_map_deleteOne: "distinct (map f xs) \<Longrightarrow> distinct (map f (deleteOne q xs))"
proof (induction xs)
  case Nil
  then show ?case by simp
next
  case (Cons x xs)
  then show ?case using set_deleteOne_subset [of q xs] by auto
qed

text \<open>One toggle, as it acts on the like records of the pair it is called for.\<close>

lemma toggleVideoLike_once:
  assumes "distinct (map like_id (likes s))"
  shows "toggleVideoLike now s (Some u) (Hex x) =
     (case videoLikes s u x of
        [] \<Rightarrow>
          (Inr (res_status_json 200 (new_ApiResponse 200 [(''isLiked'', JBool True)] None)),
           s\<lparr>likes := likes s @
              [\<lparr>like_id = new_ObjectId (map like_id (likes s)),
                like_video = Some x, like_comment = None, like_tweet = None,
                likedBy = Some u, commentedBy = None, tweetedBy = None,
                like_createdAt = now\<rparr>]\<rparr>)
      | d # ds \<Rightarrow>
          (Inr (res_status_json 200 (new_ApiResponse 200 [(''isLiked'', JBool False)] None)),
           s\<lparr>likes := remove1 d (likes s)\<rparr>))"
proof (cases "videoLikes s u x")
  case Nil
  then have "findOne (\<lambda>l. like_video l = Some x \<and> likedBy l = Some u) (likes s) = None"
    unfolding videoLikes_def by (rule findOne_filter_Nil)
  then show ?thesis
    using Nil by (simp add: toggleVideoLike_def validateObjectId_def)
next
  case (Cons d ds)
  then have f: "filter (\<lambda>l. like_video l = Some x \<and> likedBy l = Some u) (likes s) = d # ds"
    by (simp add: videoLikes_def)
  show ?thesis
    using Cons findOne_filter_Cons [OF f] deleteOne_found [OF assms f]
    by (simp add: toggleVideoLike_def validateObjectId_def)
qed

lemma toggleCommentLike_once:
  assumes "distinct (map like_id (likes s))"
  shows "toggleCommentLike now s (Some u) (Hex x) =
     (case commentLikes s u x of
        [] \<Rightarrow>
          (Inr (res_status_json 200 (new_ApiResponse 200 [(''isCommented'', JBool True)] None)),
           s\<lparr>likes := likes s @
              [\<lparr>like_id = new_ObjectId (map like_id (likes s)),
                like_video = None, like_comment = Some x, like_tweet = None,
                likedBy = None, commentedBy = Some u, tweetedBy = None,
                like_createdAt = now\<rparr>]\<rparr>)
      | d # ds \<Rightarrow>
          (Inr (res_status_json 200 (new_ApiResponse 200 [(''isCommented'', JBool False)] None)),
           s\<lparr>likes := remove1 d (likes s)\<rparr>))"
proof (cases "commentLikes s u x")
  case Nil
  then have "findOne (\<lambda>l. like_comment l = Some x \<and> commentedBy l = Some u) (likes s) = None"
    unfolding commentLikes_def by (rule findOne_filter_Nil)
  then show ?thesis
    using Nil by (simp add: toggleCommentLike_def validateObjectId_def)
next
  case (Cons d ds)
  then have f: "filter (\<lambda>l. like_comment l = Some x \<and> commentedBy l = Some u) (likes s) = d # ds"
    by (simp add: commentLikes_def)
  show ?thesis
    using Cons findOne_filter_Cons [OF f] deleteOne_found [OF assms f]
    by (simp add: toggleCommentLike_def validateObjectId_def)
qed

lemma toggleTweetLike_once:
  assumes "distinct (map like_id (likes s))"
  shows "toggleTweetLike now s (Some u) (Hex x) =
     (case tweetLikes s u x of
        [] \<Rightarrow>
          (Inr (res_status_json 200 (new_ApiResponse 200 [(''isTweeted'', JBool True)] None)),
           s\<lparr>likes := likes s @
              [\<lparr>like_id = new_ObjectId (map like_id (likes s)),
                like_video = None, like_comment = None, like_tweet = Some x,
                likedBy = None, commentedBy = None, tweetedBy = Some u,
                like_createdAt = now\<rparr>]\<rparr>)
      | d # ds \<Rightarrow>
          (Inr (res_status_json 200
                  (new_ApiResponse 200
                     [(''tweetId'', JParam (Hex x)), (''isTweeted'', JBool False)] None)),
           s\<lparr>likes := remove1 d (likes s)\<rparr>))"
proof (cases "tweetLikes s u x")
  case Nil
  then have "findOne (\<lambda>l. like_tweet l = Some x \<and> tweetedBy l = Some u) (likes s) = None"
    unfolding tweetLikes_def by (rule findOne_filter_Nil)
  then show ?thesis
    using Nil by (simp add: toggleTweetLike_def validateObjectId_def)
next
  case (Cons d ds)
  then have f: "filter (\<lambda>l. like_tweet l = Some x \<and> tweetedBy l = Some u) (likes s) = d # ds"
    by (simp add: tweetLikes_def)
  show ?thesis
    using Cons findOne_filter_Cons [OF f] deleteOne_found [OF assms f]
    by (simp add: toggleTweetLike_def validateObjectId_def)
qed

text \<open>The toggles keep the ids of the like records unique.\<close>

lemma toggleVideoLike_keeps_ids:
  assumes "distinct (map like_id (likes s))"
  shows "distinct (map like_id (likes (snd (toggleVideoLike now s w p))))"
  using assms new_ObjectId_fresh [of "map like_id (likes s)"]
  by (auto simp: toggleVideoLike_def validateObjectId_def distinct_map_deleteOne
      split: param.splits option.splits)

lemma toggleCommentLike_keeps_ids:
  assumes "distinct (map like_id (likes s))"
  shows "distinct (map like_id (likes (snd (toggleCommentLike now s w p))))"
  using assms new_ObjectId_fresh [of "map like_id (likes s)"]
  by (auto simp: toggleCommentLike_def validateObjectId_def distinct_map_deleteOne
      split: param.splits option.splits)

lemma toggleTweetLike_keeps_ids:
  assumes "distinct (map like_id (likes s))"
  shows "distinct (map like_id (likes (snd (toggleTweetLike now s w p))))"
  using assms new_ObjectId_fresh [of "map like_id (likes s)"]
  by (auto simp: toggleTweetLike_def validateObjectId_def distinct_map_deleteOne
      split: param.splits option.splits)

text \<open>
  Two toggles in a row, on lists: the first either appends a record of the pair or removes
  the pair's first record, and the second does the same to what the first left.
\<close>

lemma count_swap:
  assumes "d \<in> set ls" and "r d = r n"
  shows "length (filter r (remove1 d ls @ [n])) = length (filter r ls)"
proof (cases "r d")
  case True
  then have "d \<in> set (filter r ls)" using assms(1) by simp
  then have "0 < length (filter r ls)" by (rule length_pos_if_in_set)
  then show ?thesis
    using True assms by (simp add: filter_remove1 length_remove1)
next
  case False
  then have "d \<notin> set (filter r ls)" by simp
  then have "remove1 d (filter r ls) = filter r ls" by (rule remove1_idem)
  then show ?thesis
    using False assms(2) by (simp add: filter_remove1)
qed

lemma twice_on_lists:
  assumes one: "length (filter q ls) \<le> 1"
    and first: "ls1 = (case filter q ls of [] \<Rightarrow> ls @ [n1] | d # ds \<Rightarrow> remove1 d ls)"
    and second: "ls2 = (case filter q ls1 of [] \<Rightarrow> ls1 @ [n2] | d # ds \<Rightarrow> remove1 d ls1)"
    and q: "q n1" "q n2"
    and fresh: "n1 \<notin> set ls"
    and same: "\<And>x y. q x \<Longrightarrow> q y \<Longrightarrow> r x = r y"
  shows "length (filter r ls2) = length (filter r ls)"
proof (cases "filter q ls")
  case Nil
  then have l1: "ls1 = ls @ [n1]" using first by simp
  then have "filter q ls1 = [n1]" using Nil q(1) by simp
  then have "ls2 = remove1 n1 (ls @ [n1])" using second l1 by simp
  then have "ls2 = ls" using fresh by (simp add: remove1_append)
  then show ?thesis by simp
next
  case (Cons d ds)
  then have ds: "ds = []" using one by simp
  have d: "d \<in> set ls" using Cons by (rule filter_Cons_mem)
  have qd: "q d"
  proof -
    have "d \<in> set (filter q ls)" using Cons by simp
    then show ?thesis by simp
  qed
  have l1: "ls1 = remove1 d ls" using first Cons by simp
  then have "filter q ls1 = []" using Cons ds by (simp add: filter_remove1)
  then have l2: "ls2 = remove1 d ls @ [n2]" using second l1 by simp
  have "r d = r n2" using qd q(2) by (rule same)
  with d have "length (filter r (remove1 d ls @ [n2])) = length (filter r ls)"
    by (rule count_swap)
  then show ?thesis unfolding l2 .
qed

lemma toggleVideoLike_twice_count:
  assumes ids: "distinct (map like_id (likes s))" and one: "videoLikeCount s u v \<le> 1"
  shows "videoLikeCount
           (snd (toggleVideoLike t2 (snd (toggleVideoLike t1 s (Some u) (Hex v))) (Some u) (Hex v)))
           u' v' = videoLikeCount s u' v'"
proof -
  let ?q = "\<lambda>l. like_video l = Some v \<and> likedBy l = Some u"
  let ?s1 = "snd (toggleVideoLike t1 s (Some u) (Hex v))"
  let ?n1 = "\<lparr>like_id = new_ObjectId (map like_id (likes s)),
               like_video = Some v, like_comment = None, like_tweet = None,
               likedBy = Some u, commentedBy = None, tweetedBy = None, like_createdAt = t1\<rparr>"
  let ?n2 = "\<lparr>like_id = new_ObjectId (map like_id (likes ?s1)),
               like_video = Some v, like_comment = None, like_tweet = None,
               likedBy = Some u, commentedBy = None, tweetedBy = None, like_createdAt = t2\<rparr>"
  have ids1: "distinct (map like_id (likes ?s1))" using ids by (rule toggleVideoLike_keeps_ids)
  have first: "likes ?s1 =
      (case filter ?q (likes s) of [] \<Rightarrow> likes s @ [?n1] | d # ds \<Rightarrow> remove1 d (likes s))"
    using toggleVideoLike_once [OF ids, of t1 u v]
    by (simp add: videoLikes_def split: list.splits)
  have second: "likes (snd (toggleVideoLike t2 ?s1 (Some u) (Hex v))) =
      (case filter ?q (likes ?s1) of [] \<Rightarrow> likes ?s1 @ [?n2] | d # ds \<Rightarrow> remove1 d (likes ?s1))"
    using toggleVideoLike_once [OF ids1, of t2 u v]
    by (simp add: videoLikes_def split: list.splits)
  have fresh: "?n1 \<notin> set (likes s)"
    using new_ObjectId_fresh [of "map like_id (likes s)"] by (auto simp: image_iff)
  have "length (filter ?q (likes s)) \<le> 1"
    using one by (simp add: videoLikeCount_def videoLikes_def)
  then have "length (filter (\<lambda>l. like_video l = Some v' \<and> likedBy l = Some u')
                (likes (snd (toggleVideoLike t2 ?s1 (Some u) (Hex v)))))
           = length (filter (\<lambda>l. like_video l = Some v' \<and> likedBy l = Some u') (likes s))"
    using first second _ _ fresh by (rule twice_on_lists) simp_all
  then show ?thesis by (simp add: videoLikeCount_def videoLikes_def)
qed

lemma toggleCommentLike_twice_count:
  assumes ids: "distinct (map like_id (likes s))" and one: "commentLikeCount s u c \<le> 1"
  shows "commentLikeCount
           (snd (toggleCommentLike t2 (snd (toggleCommentLike t1 s (Some u) (Hex c))) (Some u) (Hex c)))
           u' c' = commentLikeCount s u' c'"
proof -
  let ?q = "\<lambda>l. like_comment l = Some c \<and> commentedBy l = Some u"
  let ?s1 = "snd (toggleCommentLike t1 s (Some u) (Hex c))"
  let ?n1 = "\<lparr>like_id = new_ObjectId (map like_id (likes s)),
               like_video = None, like_comment = Some c, like_tweet = None,
               likedBy = None, commentedBy = Some u, tweetedBy = None, like_createdAt = t1\<rparr>"
  let ?n2 = "\<lparr>like_id = new_ObjectId (map like_id (likes ?s1)),
               like_video = None, like_comment = Some c, like_tweet = None,
               likedBy = None, commentedBy = Some u, tweetedBy = None, like_createdAt = t2\<rparr>"
  have ids1: "distinct (map like_id (likes ?s1))" using ids by (rule toggleCommentLike_keeps_ids)
  have first: "likes ?s1 =
      (case filter ?q (likes s) of [] \<Rightarrow> likes s @ [?n1] | d # ds \<Rightarrow> remove1 d (likes s))"
    using toggleCommentLike_once [OF ids, of t1 u c]
    by (simp add: commentLikes_def split: list.splits)
  have second: "likes (snd (toggleCommentLike t2 ?s1 (Some u) (Hex c))) =
      (case filter ?q (likes ?s1) of [] \<Rightarrow> likes ?s1 @ [?n2] | d # ds \<Rightarrow> remove1 d (likes ?s1))"
    using toggleCommentLike_once [OF ids1, of t2 u c]
    by (simp add: commentLikes_def split: list.splits)
  have fresh: "?n1 \<notin> set (likes s)"
    using new_ObjectId_fresh [of "map like_id (likes s)"] by (auto simp: image_iff)
  have "length (filter ?q (likes s)) \<le> 1"
    using one by (simp add: commentLikeCount_def commentLikes_def)
  then have "length (filter (\<lambda>l. like_comment l = Some c' \<and> commentedBy l = Some u')
                (likes (snd (toggleCommentLike t2 ?s1 (Some u) (Hex c)))))
           = length (filter (\<lambda>l. like_comment l = Some c' \<and> commentedBy l = Some u') (likes s))"
    using first second _ _ fresh by (rule twice_on_lists) simp_all
  then show ?thesis by (simp add: commentLikeCount_def commentLikes_def)
qed

lemma toggleTweetLike_twice_count:
  assumes ids: "distinct (map like_id (likes s))" and one: "tweetLikeCount s u t \<le> 1"
  shows "tweetLikeCount
           (snd (toggleTweetLike t2 (snd (toggleTweetLike t1 s (Some u) (Hex t))) (Some u) (Hex t)))
           u' t' = tweetLikeCount s u' t'"
proof -
  let ?q = "\<lambda>l. like_tweet l = Some t \<and> tweetedBy l = Some u"
  let ?s1 = "snd (toggleTweetLike t1 s (Some u) (Hex t))"
  let ?n1 = "\<lparr>like_id = new_ObjectId (map like_id (likes s)),
               like_video = None, like_comment = None, like_tweet = Some t,
               likedBy = None, commentedBy = None, tweetedBy = Some u, like_createdAt = t1\<rparr>"
  let ?n2 = "\<lparr>like_id = new_ObjectId (map like_id (likes ?s1)),
               like_video = None, like_comment = None, like_tweet = Some t,
               likedBy = None, commentedBy = None, tweetedBy = Some u, like_createdAt = t2\<rparr>"
  have ids1: "distinct (map like_id (likes ?s1))" using ids by (rule toggleTweetLike_keeps_ids)
  have first: "likes ?s1 =
      (case filter ?q (likes s) of [] \<Rightarrow> likes s @ [?n1] | d # ds \<Rightarrow> remove1 d (likes s))"
    using toggleTweetLike_once [OF ids, of t1 u t]
    by (simp add: tweetLikes_def split: list.splits)
  have second: "likes (snd (toggleTweetLike t2 ?s1 (Some u) (Hex t))) =
      (case filter ?q (likes ?s1) of [] \<Rightarrow> likes ?s1 @ [?n2] | d # ds \<Rightarrow> remove1 d (likes ?s1))"
    using toggleTweetLike_once [OF ids1, of t2 u t]
    by (simp add: tweetLikes_def split: list.splits)
  have fresh: "?n1 \<notin> set (likes s)"
    using new_ObjectId_fresh [of "map like_id (likes s)"] by (auto simp: image_iff)
  have "length (filter ?q (likes s)) \<le> 1"
    using one by (simp add: tweetLikeCount_def tweetLikes_def)
  then have "length (filter (\<lambda>l. like_tweet l = Some t' \<and> tweetedBy l = Some u')
                (likes (snd (toggleTweetLike t2 ?s1 (Some u) (Hex t)))))
           = length (filter (\<lambda>l. like_tweet l = Some t' \<and> tweetedBy l = Some u') (likes s))"
    using first second _ _ fresh by (rule twice_on_lists) simp_all
  then show ?thesis by (simp add: tweetLikeCount_def tweetLikes_def)
qed

text \<open>
  C1, as amended. In a store whose like records have unique ids, for every (user, target)
  pair that has at most one stored like record, two toggles in a row (of a video, of a
  comment or of a tweet) restore the stored state of every pair of that kind: the number
  of like records of the pair and whether the pair is liked are what they were.
\<close>

theorem like_toggle_twice:
  assumes "distinct (map like_id (likes s))"
  shows
   "(videoLikeCount s u v \<le> 1 \<longrightarrow>
       videoLikeCount
         (snd (toggleVideoLike t2 (snd (toggleVideoLike t1 s (Some u) (Hex v))) (Some u) (Hex v)))
         u' v' = videoLikeCount s u' v'
     \<and> videoLiked
         (snd (toggleVideoLike t2 (snd (toggleVideoLike t1 s (Some u) (Hex v))) (Some u) (Hex v)))
         u' v' = videoLiked s u' v')
  \<and> (commentLikeCount s u c \<le> 1 \<longrightarrow>
       commentLikeCount
         (snd (toggleCommentLike t2 (snd (toggleCommentLike t1 s (Some u) (Hex c)))
                 (Some u) (Hex c)))
         u' c' = commentLikeCount s u' c'
     \<and> commentLiked
         (snd (toggleCommentLike t2 (snd (toggleCommentLike t1 s (Some u) (Hex c)))
                 (Some u) (Hex c)))
         u' c' = commentLiked s u' c')
  \<and> (tweetLikeCount s u t \<le> 1 \<longrightarrow>
       tweetLikeCount
         (snd (toggleTweetLike t2 (snd (toggleTweetLike t1 s (Some u) (Hex t))) (Some u) (Hex t)))
         u' t' = tweetLikeCount s u' t'
     \<and> tweetLiked
         (snd (toggleTweetLike t2 (snd (toggleTweetLike t1 s (Some u) (Hex t))) (Some u) (Hex t)))
         u' t' = tweetLiked s u' t')"
  using toggleVideoLike_twice_count [OF assms, of u v t2 t1 u' v']
    toggleCommentLike_twice_count [OF assms, of u c t2 t1 u' c']
    toggleTweetLike_twice_count [OF assms, of u t t2 t1 u' t']
  by (simp add: videoLiked_count commentLiked_count tweetLiked_count)

theorem like_toggle_twice_witness:
  "distinct (map like_id (likes example_store))
   \<and> videoLikeCount example_store 2 10 = 1
   \<and> videoLikeCount
       (snd (toggleVideoLike 8 (snd (toggleVideoLike 7 example_store (Some 2) (Hex 10)))
               (Some 2) (Hex 10))) 2 10 = 1
   \<and> videoLiked
       (snd (toggleVideoLike 8 (snd (toggleVideoLike 7 example_store (Some 2) (Hex 10)))
               (Some 2) (Hex 10))) 2 10
   \<and> commentLikeCount example_store 2 30 = 0
   \<and> commentLikeCount
       (snd (toggleCommentLike 8 (snd (toggleCommentLike 7 example_store (Some 2) (Hex 30)))
               (Some 2) (Hex 30))) 2 30 = 0
   \<and> tweetLikeCount example_store 2 20 = 0
   \<and> tweetLikeCount
       (snd (toggleTweetLike 8 (snd (toggleTweetLike 7 example_store (Some 2) (Hex 20)))
               (Some 2) (Hex 20))) 2 20 = 0"
proof -
  have ids: "distinct (map like_id (likes example_store))"
    by (simp add: example_store_def)
  have v: "videoLikeCount example_store 2 10 = 1"
    by (simp add: example_store_def videoLikeCount_def videoLikes_def)
  have c: "commentLikeCount example_store 2 30 = 0"
    by (simp add: example_store_def commentLikeCount_def commentLikes_def)
  have t: "tweetLikeCount example_store 2 20 = 0"
    by (simp add: example_store_def tweetLikeCount_def tweetLikes_def)
  have l: "videoLiked example_store 2 10"
    using v by (simp add: videoLiked_count)
  show ?thesis
    using like_toggle_twice [OF ids, of 2 10 8 7 2 10 30 30 20 20] ids v c t l by simp
qed

text \<open>
  C1, as stated, fails where a pair has two like records: two toggles delete both, and
  the pair that was liked is not liked any more.
\<close>

theorem like_toggle_twice_doubled:
  "videoLikeCount doubled_store 2 10 = 2
   \<and> videoLikeCount
       (snd (toggleVideoLike 9 (snd (toggleVideoLike 8 doubled_store (Some 2) (Hex 10)))
               (Some 2) (Hex 10))) 2 10 = 0
   \<and> videoLiked doubled_store 2 10
   \<and> \<not> videoLiked
       (snd (toggleVideoLike 9 (snd (toggleVideoLike 8 doubled_store (Some 2) (Hex 10)))
               (Some 2) (Hex 10))) 2 10"
  by code_simp

text \<open>
  C2, as amended. For an authenticated user and a valid target id, one toggle looks for
  a like record of the (user, target) pair. When there is none, it creates one record
  of the pair and reports liked; when there is one, it deletes that record and reports
  not-liked. The report is \<open>{isLiked}\<close> for a video, \<open>{isCommented}\<close> for a comment and
  \<open>{isTweeted}\<close> for a tweet (with the \<open>tweetId\<close> on un-liking).
\<close>

theorem like_toggle_once:
  assumes "distinct (map like_id (likes s))"
  shows
   "(videoLikes s u v = [] \<longrightarrow>
       sent_status (fst (toggleVideoLike now s (Some u) (Hex v))) = Some 200
     \<and> sent_data (fst (toggleVideoLike now s (Some u) (Hex v))) = Some [(''isLiked'', JBool True)]
     \<and> (\<exists>n. snd (toggleVideoLike now s (Some u) (Hex v)) = s\<lparr>likes := likes s @ [n]\<rparr>
            \<and> videoLikes (snd (toggleVideoLike now s (Some u) (Hex v))) u v = [n]))
  \<and> (\<forall>d ds. videoLikes s u v = d # ds \<longrightarrow>
       sent_status (fst (toggleVideoLike now s (Some u) (Hex v))) = Some 200
     \<and> sent_data (fst (toggleVideoLike now s (Some u) (Hex v))) = Some [(''isLiked'', JBool False)]
     \<and> snd (toggleVideoLike now s (Some u) (Hex v)) = s\<lparr>likes := remove1 d (likes s)\<rparr>)
  \<and> (commentLikes s u c = [] \<longrightarrow>
       sent_status (fst (toggleCommentLike now s (Some u) (Hex c))) = Some 200
     \<and> sent_data (fst (toggleCommentLike now s (Some u) (Hex c)))
         = Some [(''isCommented'', JBool True)]
     \<and> (\<exists>n. snd (toggleCommentLike now s (Some u) (Hex c)) = s\<lparr>likes := likes s @ [n]\<rparr>
            \<and> commentLikes (snd (toggleCommentLike now s (Some u) (Hex c))) u c = [n]))
  \<and> (\<forall>d ds. commentLikes s u c = d # ds \<longrightarrow>
       sent_status (fst (toggleCommentLike now s (Some u) (Hex c))) = Some 200
     \<and> sent_data (fst (toggleCommentLike now s (Some u) (Hex c)))
         = Some [(''isCommented'', JBool False)]
     \<and> snd (toggleCommentLike now s (Some u) (Hex c)) = s\<lparr>likes := remove1 d (likes s)\<rparr>)
  \<and> (tweetLikes s u t = [] \<longrightarrow>
       sent_status (fst (toggleTweetLike now s (Some u) (Hex t))) = Some 200
     \<and> sent_data (fst (toggleTweetLike now s (Some u) (Hex t))) = Some [(''isTweeted'', JBool True)]
     \<and> (\<exists>n. snd (toggleTweetLike now s (Some u) (Hex t)) = s\<lparr>likes := likes s @ [n]\<rparr>
            \<and> tweetLikes (snd (toggleTweetLike now s (Some u) (Hex t))) u t = [n]))
  \<and> (\<forall>d ds. tweetLikes s u t = d # ds \<longrightarrow>
       sent_status (fst (toggleTweetLike now s (Some u) (Hex t))) = Some 200
     \<and> sent_data (fst (toggleTweetLike now s (Some u) (Hex t)))
         = Some [(''tweetId'', JParam (Hex t)), (''isTweeted'', JBool False)]
     \<and> snd (toggleTweetLike now s (Some u) (Hex t)) = s\<lparr>likes := remove1 d (likes s)\<rparr>)"
proof (intro conjI impI allI)
  assume e: "videoLikes s u v = []"
  then have f: "filter (\<lambda>l. like_video l = Some v \<and> likedBy l = Some u) (likes s) = []"
    by (simp add: videoLikes_def)
  show "sent_status (fst (toggleVideoLike now s (Some u) (Hex v))) = Some 200"
    and "sent_data (fst (toggleVideoLike now s (Some u) (Hex v))) = Some [(''isLiked'', JBool True)]"
    using e toggleVideoLike_once [OF assms, of now u v]
    by (simp_all add: sent_status_def sent_data_def res_status_json_def new_ApiResponse_def)
  show "\<exists>n. snd (toggleVideoLike now s (Some u) (Hex v)) = s\<lparr>likes := likes s @ [n]\<rparr>
            \<and> videoLikes (snd (toggleVideoLike now s (Some u) (Hex v))) u v = [n]"
    using e f toggleVideoLike_once [OF assms, of now u v] by (simp add: videoLikes_def)
next
  fix d ds assume e: "videoLikes s u v = d # ds"
  then show "sent_status (fst (toggleVideoLike now s (Some u) (Hex v))) = Some 200"
    and "sent_data (fst (toggleVideoLike now s (Some u) (Hex v))) = Some [(''isLiked'', JBool False)]"
    and "snd (toggleVideoLike now s (Some u) (Hex v)) = s\<lparr>likes := remove1 d (likes s)\<rparr>"
    using toggleVideoLike_once [OF assms, of now u v]
    by (simp_all add: sent_status_def sent_data_def res_status_json_def new_ApiResponse_def)
next
  assume e: "commentLikes s u c = []"
  then have f: "filter (\<lambda>l. like_comment l = Some c \<and> commentedBy l = Some u) (likes s) = []"
    by (simp add: commentLikes_def)
  show "sent_status (fst (toggleCommentLike now s (Some u) (Hex c))) = Some 200"
    and "sent_data (fst (toggleCommentLike now s (Some u) (Hex c)))
         = Some [(''isCommented'', JBool True)]"
    using e toggleCommentLike_once [OF assms, of now u c]
    by (simp_all add: sent_status_def sent_data_def res_status_json_def new_ApiResponse_def)
  show "\<exists>n. snd (toggleCommentLike now s (Some u) (Hex c)) = s\<lparr>likes := likes s @ [n]\<rparr>
            \<and> commentLikes (snd (toggleCommentLike now s (Some u) (Hex c))) u c = [n]"
    using e f toggleCommentLike_once [OF assms, of now u c] by (simp add: commentLikes_def)
next
  fix d ds assume e: "commentLikes s u c = d # ds"
  then show "sent_status (fst (toggleCommentLike now s (Some u) (Hex c))) = Some 200"
    and "sent_data (fst (toggleCommentLike now s (Some u) (Hex c)))
         = Some [(''isCommented'', JBool False)]"
    and "snd (toggleCommentLike now s (Some u) (Hex c)) = s\<lparr>likes := remove1 d (likes s)\<rparr>"
    using toggleCommentLike_once [OF assms, of now u c]
    by (simp_all add: sent_status_def sent_data_def res_status_json_def new_ApiResponse_def)
next
  assume e: "tweetLikes s u t = []"
  then have f: "filter (\<lambda>l. like_tweet l = Some t \<and> tweetedBy l = Some u) (likes s) = []"
    by (simp add: tweetLikes_def)
  show "sent_status (fst (toggleTweetLike now s (Some u) (Hex t))) = Some 200"
    and "sent_data (fst (toggleTweetLike now s (Some u) (Hex t))) = Some [(''isTweeted'', JBool True)]"
    using e toggleTweetLike_once [OF assms, of now u t]
    by (simp_all add: sent_status_def sent_data_def res_status_json_def new_ApiResponse_def)
  show "\<exists>n. snd (toggleTweetLike now s (Some u) (Hex t)) = s\<lparr>likes := likes s @ [n]\<rparr>
            \<and> tweetLikes (snd (toggleTweetLike now s (Some u) (Hex t))) u t = [n]"
    using e f toggleTweetLike_once [OF assms, of now u t] by (simp add: tweetLikes_def)
next
  fix d ds assume e: "tweetLikes s u t = d # ds"
  then show "sent_status (fst (toggleTweetLike now s (Some u) (Hex t))) = Some 200"
    and "sent_data (fst (toggleTweetLike now s (Some u) (Hex t)))
         = Some [(''tweetId'', JParam (Hex t)), (''isTweeted'', JBool False)]"
    and "snd (toggleTweetLike now s (Some u) (Hex t)) = s\<lparr>likes := remove1 d (likes s)\<rparr>"
    using toggleTweetLike_once [OF assms, of now u t]
    by (simp_all add: sent_status_def sent_data_def res_status_json_def new_ApiResponse_def)
qed

theorem like_toggle_once_witness:
  "distinct (map like_id (likes example_store))
   \<and> sent_data (fst (toggleVideoLike 7 example_store (Some 2) (Hex 10)))
       = Some [(''isLiked'', JBool False)]
   \<and> snd (toggleVideoLike 7 example_store (Some 2) (Hex 10)) = example_store\<lparr>likes := []\<rparr>
   \<and> sent_data (fst (toggleCommentLike 7 example_store (Some 2) (Hex 30)))
       = Some [(''isCommented'', JBool True)]
   \<and> sent_data (fst (toggleTweetLike 7 example_store (Some 2) (Hex 20)))
       = Some [(''isTweeted'', JBool True)]
   \<and> length (likes (snd (toggleTweetLike 7 example_store (Some 2) (Hex 20)))) = 2"
proof -
  have ids: "distinct (map like_id (likes example_store))"
    by (simp add: example_store_def)
  have v: "videoLikes example_store 2 10 =
      [\<lparr>like_id = 50, like_video = Some 10, like_comment = None, like_tweet = None,
        likedBy = Some 2, commentedBy = None, tweetedBy = None, like_createdAt = 6\<rparr>]"
    by (simp add: videoLikes_def example_store_def)
  have c: "commentLikes example_store 2 30 = []"
    by (simp add: commentLikes_def example_store_def)
  have t: "tweetLikes example_store 2 20 = []"
    by (simp add: tweetLikes_def example_store_def)
  have l: "likes example_store =
      [\<lparr>like_id = 50, like_video = Some 10, like_comment = None, like_tweet = None,
        likedBy = Some 2, commentedBy = None, tweetedBy = None, like_createdAt = 6\<rparr>]"
    by (simp add: example_store_def)
  note th = like_toggle_once [OF ids, of 2 10 7 30 20]
  have "\<exists>n. snd (toggleTweetLike 7 example_store (Some 2) (Hex 20))
             = example_store\<lparr>likes := likes example_store @ [n]\<rparr>"
    using th t by blast
  then have n: "length (likes (snd (toggleTweetLike 7 example_store (Some 2) (Hex 20)))) = 2"
    using l by auto
  show ?thesis
    using th ids n by (simp add: v c t l)
qed

text \<open>
  C2, as stated, fails on the tweet toggle: liking a tweet reports \<open>{isTweeted:true}\<close>,
  not \<open>{isLiked:true}\<close>.
\<close>

theorem toggleTweetLike_reports_isTweeted:
  "sent_data (fst (toggleTweetLike 7 example_store (Some 2) (Hex 20)))
     = Some [(''isTweeted'', JBool True)]
   \<and> sent_data (fst (toggleTweetLike 7 example_store (Some 2) (Hex 20)))
     \<noteq> Some [(''isLiked'', JBool True)]"
  by (simp add: toggleTweetLike_def validateObjectId_def example_store_def findOne_def
      sent_data_def res_status_json_def new_ApiResponse_def)

section \<open>Channel statistics\<close>

text \<open>
  C3, as amended. For an authenticated owner with no subscription to the channel and no
  video, \<open>getChannelStats\<close> succeeds with status 200 and sends exactly
  \<open>{totalSubscribers:0, totalLikes:0, totalViews:0, totalVideos:0}\<close>: no error, no null.
\<close>

theorem getChannelStats_zero:
  assumes "filter (\<lambda>x. channel x = Some u) (subscriptions s) = []"
    and "filter (\<lambda>x. video_owner x = Some u) (videos s) = []"
  shows "getChannelStats s (Some u) =
     Inr (res_status_json 200
            (new_ApiResponse 200
               [(''totalSubscribers'', JNum 0), (''totalLikes'', JNum 0),
                (''totalViews'', JNum 0), (''totalVideos'', JNum 0)]
               (Some ''Channel stats fetched successfully'')))"
  using assms
  by (simp add: getChannelStats_def getUserId_def getTotalSubscribers_def getVideoStats_def
      first_of_def or_zero_def)

theorem getChannelStats_zero_witness:
  "filter (\<lambda>x. channel x = Some 2) (subscriptions example_store) = []
   \<and> filter (\<lambda>x. video_owner x = Some 2) (videos example_store) = []
   \<and> sent_data (getChannelStats example_store (Some 2)) =
       Some [(''totalSubscribers'', JNum 0), (''totalLikes'', JNum 0),
             (''totalViews'', JNum 0), (''totalVideos'', JNum 0)]"
proof -
  have a: "filter (\<lambda>x. channel x = Some 2) (subscriptions example_store) = []"
    by (simp add: example_store_def)
  have b: "filter (\<lambda>x. video_owner x = Some 2) (videos example_store) = []"
    by (simp add: example_store_def)
  show ?thesis
    using getChannelStats_zero [OF a b] a b
    by (simp add: sent_data_def res_status_json_def new_ApiResponse_def)
qed

text \<open>
  C3, as stated, fails on the keys: what is sent for an owner with nothing has
  \<open>totalSubscribers\<close> and \<open>totalVideos\<close>, not \<open>subscriberCount\<close> and
  \<open>totalVideoCount\<close>.
\<close>

theorem getChannelStats_keys:
  "sent_data (getChannelStats empty_store (Some 1)) =
       Some [(''totalSubscribers'', JNum 0), (''totalLikes'', JNum 0),
             (''totalViews'', JNum 0), (''totalVideos'', JNum 0)]
   \<and> sent_data (getChannelStats empty_store (Some 1)) \<noteq>
       Some [(''subscriberCount'', JNum 0), (''totalLikes'', JNum 0),
             (''totalViews'', JNum 0), (''totalVideoCount'', JNum 0)]"
  by (simp add: getChannelStats_def getUserId_def getTotalSubscribers_def getVideoStats_def
      first_of_def or_zero_def empty_store_def sent_data_def res_status_json_def
      new_ApiResponse_def)

section \<open>Tweets\<close>

text \<open>
  C5, as amended. Creating a tweet with non-empty content as the authenticated user
  \<open>u\<close> succeeds with HTTP status 200; the data sent is the stored tweet, whose content
  is the submitted content and whose owner is \<open>u\<close>, under an id that no tweet had.
\<close>

theorem createTweet_owner:
  assumes "c \<noteq> []"
  shows "createTweet now s (Some u) (Some c) =
     (Inr (res_status_json 200
             (new_ApiResponse 200
                \<lparr>tweet_id = new_ObjectId (map tweet_id (tweets s)), tweet_content = c,
                  tweet_owner = Some u, tweet_createdAt = now\<rparr>
                (Some ''Tweet created successfully''))),
      s\<lparr>tweets := tweets s @
         [\<lparr>tweet_id = new_ObjectId (map tweet_id (tweets s)), tweet_content = c,
           tweet_owner = Some u, tweet_createdAt = now\<rparr>]\<rparr>)
   \<and> new_ObjectId (map tweet_id (tweets s)) \<notin> tweet_id ` set (tweets s)"
  using assms new_ObjectId_fresh [of "map tweet_id (tweets s)"]
  by (simp add: createTweet_def Let_def)

theorem createTweet_owner_witness:
  "''hello'' \<noteq> []
   \<and> sent_status (fst (createTweet 9 example_store (Some 2) (Some ''hello''))) = Some 200
   \<and> map_option tweet_content (sent_data (fst (createTweet 9 example_store (Some 2) (Some ''hello''))))
       = Some ''hello''
   \<and> map_option tweet_owner (sent_data (fst (createTweet 9 example_store (Some 2) (Some ''hello''))))
       = Some (Some 2)"
proof -
  have h: "''hello'' \<noteq> []" by simp
  show ?thesis
    using createTweet_owner [OF h, of 9 example_store 2]
    by (simp add: sent_status_def sent_data_def res_status_json_def new_ApiResponse_def)
qed

text \<open>
  C5, as stated, fails on the status: \<open>createTweet\<close> answers 200, not 201.
\<close>

theorem createTweet_status_200:
  "sent_status (fst (createTweet 9 example_store (Some 2) (Some ''hello''))) = Some 200
   \<and> sent_status (fst (createTweet 9 example_store (Some 2) (Some ''hello''))) \<noteq> Some 201"
  by (simp add: createTweet_def sent_status_def res_status_json_def Let_def)

section \<open>Login\<close>

text \<open>
  C10, as amended. \<open>isPasswordCorrect\<close> returns \<open>undefined\<close> for every user and every
  supplied password, whatever bcrypt's verdict. So a login request that gives both
  \<open>userName\<close> and \<open>email\<close>, names an existing user (as the filter, lower-cased and
  trimmed, finds it) and supplies a password is answered with
  \<open>ApiError(401, "Invalid user credentials")\<close>, and no login request at all succeeds.
\<close>

theorem loginUser_unauthorized:
  "isPasswordCorrect verdict usr (Some p) = Inr Undefined
   \<and> (\<not> falsy un \<and> \<not> falsy em
        \<and> findOne (\<lambda>x. Some (userName x) = map_option setters un
                          \<or> Some (email x) = map_option setters em) (users s) = Some usr
      \<longrightarrow> loginUser verdict setters s em un (Some p)
            = (Inl (ApiError 401 ''Invalid user credentials''), s))
   \<and> \<not> succeeded (fst (loginUser verdict setters s em un pw))"
proof (intro conjI impI)
  show "isPasswordCorrect verdict usr (Some p) = Inr Undefined"
    by (simp add: isPasswordCorrect_def bcrypt_compare_def)
next
  assume "\<not> falsy un \<and> \<not> falsy em
        \<and> findOne (\<lambda>x. Some (userName x) = map_option setters un
                          \<or> Some (email x) = map_option setters em) (users s) = Some usr"
  then show "loginUser verdict setters s em un (Some p)
            = (Inl (ApiError 401 ''Invalid user credentials''), s)"
    by (simp add: loginUser_def isPasswordCorrect_def bcrypt_compare_def)
next
  show "\<not> succeeded (fst (loginUser verdict setters s em un pw))"
    by (cases pw)
      (auto simp: loginUser_def isPasswordCorrect_def bcrypt_compare_def succeeded_def
        split: option.splits)
qed

lemma ascii_setters_examples:
  "ascii_setters ''ALICE'' = ''alice''"
  "ascii_setters '' Alice@Example.org '' = ''alice@example.org''"
  "ascii_setters ''alice'' = ''alice''"
  "ascii_setters ''alice@example.org'' = ''alice@example.org''"
  by code_simp+

theorem loginUser_unauthorized_witness:
  "loginUser (\<lambda>p h. True) ascii_setters example_store (Some '' Alice@Example.org '')
      (Some ''ALICE'') (Some ''secret'')
     = (Inl (ApiError 401 ''Invalid user credentials''), example_store)
   \<and> isPasswordCorrect (\<lambda>p h. True) (hd (users example_store)) (Some ''secret'') = Inr Undefined"
proof -
  have f: "findOne (\<lambda>x. Some (userName x) = map_option ascii_setters (Some ''ALICE'')
                        \<or> Some (email x) = map_option ascii_setters (Some '' Alice@Example.org ''))
             (users example_store) = Some (hd (users example_store))"
    by (simp add: ascii_setters_examples) (simp add: example_store_def findOne_def)
  have g: "\<not> falsy (Some ''ALICE'')" "\<not> falsy (Some '' Alice@Example.org '')"
    by (simp_all add: falsy_def)
  show ?thesis
    using loginUser_unauthorized [of "\<lambda>p h. True" "hd (users example_store)" "''secret''"
        "Some ''ALICE''" "Some '' Alice@Example.org ''" ascii_setters example_store None] f g
    by simp
qed

text \<open>
  C10, as stated, fails on a request that names an existing user by \<open>userName\<close> alone,
  which is answered 400, and on one that supplies no password, where the comparison
  rejects and \<open>isPasswordCorrect\<close> returns nothing at all.
\<close>

theorem loginUser_other_errors:
  "loginUser (\<lambda>p h. True) ascii_setters example_store None (Some ''alice'') (Some ''secret'')
     = (Inl (ApiError 400 ''UserName or Email Required''), example_store)
   \<and> loginUser (\<lambda>p h. True) ascii_setters example_store (Some ''alice@example.org'')
        (Some ''alice'') None
     = (Inl (LibraryError ''data and hash arguments required''), example_store)
   \<and> isPasswordCorrect (\<lambda>p h. True) (hd (users example_store)) None
     = Inl (LibraryError ''data and hash arguments required'')"
proof (intro conjI)
  show "loginUser (\<lambda>p h. True) ascii_setters example_store None (Some ''alice'') (Some ''secret'')
     = (Inl (ApiError 400 ''UserName or Email Required''), example_store)"
    by (simp add: loginUser_def falsy_def)
  show "loginUser (\<lambda>p h. True) ascii_setters example_store (Some ''alice@example.org'')
        (Some ''alice'') None
     = (Inl (LibraryError ''data and hash arguments required''), example_store)"
    by (simp add: loginUser_def falsy_def ascii_setters_examples)
      (simp add: example_store_def findOne_def isPasswordCorrect_def bcrypt_compare_def)
  show "isPasswordCorrect (\<lambda>p h. True) (hd (users example_store)) None
     = Inl (LibraryError ''data and hash arguments required'')"
    by (simp add: isPasswordCorrect_def bcrypt_compare_def)
qed

section \<open>Ownership\<close>

text \<open>
  C4. For the update and the delete of a tweet, a comment and a playlist, on a request
  that passes the validation of its fields: when no entity has the id, the operation
  fails with 404, whoever calls; when the entity exists and the caller is not its owner,
  the operation fails with the ownership error (400 for tweets and playlists, 403 for
  comments). In both cases the store is left as it was.
\<close>

theorem mutation_guard:
  assumes "c \<noteq> []" and "n \<noteq> []" and "d \<noteq> []"
  shows
   "(findOne (\<lambda>x. tweet_id x = i) (tweets s) = None \<longrightarrow>
       updateTweet s w (Some c) (Hex i) = (Inl (ApiError 404 ''Tweet not found''), s)
     \<and> deleteTweet s w (Hex i) = (Inl (ApiError 404 ''Tweet not found''), s))
  \<and> (findOne (\<lambda>x. tweet_id x = i) (tweets s) = Some t \<and> tweet_owner t = Some own
        \<and> w \<noteq> Some own \<longrightarrow>
       updateTweet s w (Some c) (Hex i)
         = (Inl (ApiError 400 ''Only the owner can edit their tweet''), s)
     \<and> deleteTweet s w (Hex i)
         = (Inl (ApiError 400 ''Only the owner can delete their tweet''), s))
  \<and> (findOne (\<lambda>x. comment_id x = i) (comments s) = None \<longrightarrow>
       updateComment s w (Some c) (Hex i) = (Inl (ApiError 404 ''Comment not found''), s)
     \<and> deleteComment s w (Hex i) = (Inl (ApiError 404 ''Comment not found''), s))
  \<and> (findOne (\<lambda>x. comment_id x = i) (comments s) = Some cm \<and> comment_owner cm = Some own
        \<and> u \<noteq> own \<longrightarrow>
       updateComment s (Some u) (Some c) (Hex i)
         = (Inl (ApiError 403 ''Only the comment owner can update this comment''), s)
     \<and> deleteComment s (Some u) (Hex i)
         = (Inl (ApiError 403 ''Only the comment owner can delete this comment''), s))
  \<and> (findOne (\<lambda>x. playlist_id x = i) (playlists s) = None \<longrightarrow>
       updatePlaylist s w (Some n) (Some d) (Hex i)
         = (Inl (ApiError 404 ''Playlist not found''), s)
     \<and> deletePlaylist s w (Hex i) = (Inl (ApiError 404 ''Playlist not found''), s))
  \<and> (findOne (\<lambda>x. playlist_id x = i) (playlists s) = Some pl \<and> playlist_owner pl = Some own
        \<and> w \<noteq> Some own \<longrightarrow>
       updatePlaylist s w (Some n) (Some d) (Hex i)
         = (Inl (ApiError 400 ''Only the owner can edit the playlist''), s)
     \<and> deletePlaylist s w (Hex i)
         = (Inl (ApiError 400 ''Only the owner can delete the playlist''), s))"
proof (intro conjI impI)
  assume "findOne (\<lambda>x. tweet_id x = i) (tweets s) = None"
  then show "updateTweet s w (Some c) (Hex i) = (Inl (ApiError 404 ''Tweet not found''), s)"
    and "deleteTweet s w (Hex i) = (Inl (ApiError 404 ''Tweet not found''), s)"
    using assms by (simp_all add: updateTweet_def deleteTweet_def castObjectId_def)
next
  assume "findOne (\<lambda>x. tweet_id x = i) (tweets s) = Some t \<and> tweet_owner t = Some own
        \<and> w \<noteq> Some own"
  then show "updateTweet s w (Some c) (Hex i)
         = (Inl (ApiError 400 ''Only the owner can edit their tweet''), s)"
    and "deleteTweet s w (Hex i)
         = (Inl (ApiError 400 ''Only the owner can delete their tweet''), s)"
    using assms
    by (simp_all add: updateTweet_def deleteTweet_def castObjectId_def owner_differs_def)
next
  assume "findOne (\<lambda>x. comment_id x = i) (comments s) = None"
  then show "updateComment s w (Some c) (Hex i) = (Inl (ApiError 404 ''Comment not found''), s)"
    and "deleteComment s w (Hex i) = (Inl (ApiError 404 ''Comment not found''), s)"
    using assms by (simp_all add: updateComment_def deleteComment_def castObjectId_def)
next
  assume "findOne (\<lambda>x. comment_id x = i) (comments s) = Some cm \<and> comment_owner cm = Some own
        \<and> u \<noteq> own"
  then show "updateComment s (Some u) (Some c) (Hex i)
         = (Inl (ApiError 403 ''Only the comment owner can update this comment''), s)"
    and "deleteComment s (Some u) (Hex i)
         = (Inl (ApiError 403 ''Only the comment owner can delete this comment''), s)"
    using assms
    by (auto simp: updateComment_def deleteComment_def castObjectId_def
        comment_owner_differs_def)
next
  assume "findOne (\<lambda>x. playlist_id x = i) (playlists s) = None"
  then show "updatePlaylist s w (Some n) (Some d) (Hex i)
         = (Inl (ApiError 404 ''Playlist not found''), s)"
    and "deletePlaylist s w (Hex i) = (Inl (ApiError 404 ''Playlist not found''), s)"
    using assms by (simp_all add: updatePlaylist_def deletePlaylist_def castObjectId_def)
next
  assume "findOne (\<lambda>x. playlist_id x = i) (playlists s) = Some pl \<and> playlist_owner pl = Some own
        \<and> w \<noteq> Some own"
  then show "updatePlaylist s w (Some n) (Some d) (Hex i)
         = (Inl (ApiError 400 ''Only the owner can edit the playlist''), s)"
    and "deletePlaylist s w (Hex i)
         = (Inl (ApiError 400 ''Only the owner can delete the playlist''), s)"
    using assms
    by (simp_all add: updatePlaylist_def deletePlaylist_def castObjectId_def owner_differs_def)
qed

theorem mutation_guard_witness:
  "updateTweet example_store (Some 2) (Some ''edit'') (Hex 20)
     = (Inl (ApiError 400 ''Only the owner can edit their tweet''), example_store)
   \<and> deleteTweet example_store (Some 2) (Hex 99)
     = (Inl (ApiError 404 ''Tweet not found''), example_store)
   \<and> deleteComment example_store (Some 2) (Hex 30)
     = (Inl (ApiError 403 ''Only the comment owner can delete this comment''), example_store)
   \<and> updateComment example_store (Some 2) (Some ''edit'') (Hex 99)
     = (Inl (ApiError 404 ''Comment not found''), example_store)
   \<and> deletePlaylist example_store (Some 2) (Hex 40)
     = (Inl (ApiError 400 ''Only the owner can delete the playlist''), example_store)
   \<and> updatePlaylist example_store (Some 2) (Some ''n'') (Some ''d'') (Hex 99)
     = (Inl (ApiError 404 ''Playlist not found''), example_store)"
proof -
  have ne: "''edit'' \<noteq> []" "''n'' \<noteq> []" "''d'' \<noteq> []" by simp_all
  have t: "findOne (\<lambda>x. tweet_id x = 20) (tweets example_store)
             = Some (hd (tweets example_store))"
      "tweet_owner (hd (tweets example_store)) = Some 1"
      "findOne (\<lambda>x. tweet_id x = 99) (tweets example_store) = None"
    by (simp_all add: example_store_def findOne_def)
  have c: "findOne (\<lambda>x. comment_id x = 30) (comments example_store)
             = Some (hd (comments example_store))"
      "comment_owner (hd (comments example_store)) = Some 1"
      "findOne (\<lambda>x. comment_id x = 99) (comments example_store) = None"
    by (simp_all add: example_store_def findOne_def)
  have p: "findOne (\<lambda>x. playlist_id x = 40) (playlists example_store)
             = Some (hd (playlists example_store))"
      "playlist_owner (hd (playlists example_store)) = Some 1"
      "findOne (\<lambda>x. playlist_id x = 99) (playlists example_store) = None"
    by (simp_all add: example_store_def findOne_def)
  have two: "Some (2::nat) \<noteq> Some 1" "(2::nat) \<noteq> 1" by simp_all
  note g = mutation_guard [OF ne, where s = example_store and w = "Some 2" and u = 2 and own = 1]
  show ?thesis
    using g [where i = 20 and t = "hd (tweets example_store)"]
      g [where i = 30 and cm = "hd (comments example_store)"]
      g [where i = 40 and pl = "hd (playlists example_store)"]
      g [where i = 99] t c p two
    by simp
qed

section \<open>Playlists\<close>

lemma findOne_updateOne:
  assumes "findOne q xs = Some x" and "\<And>y. q y \<Longrightarrow> q (f y)"
  shows "findOne q (updateOne q f xs) = Some (f x)"
  using assms by (induction xs) (auto simp: findOne_def split: if_splits)

lemma updateOne_fixed:
  assumes "findOne q xs = Some x" and "f x = x"
  shows "updateOne q f xs = xs"
  using assms by (induction xs) (auto simp: findOne_def split: if_splits)

lemma addToSet_idem: "addToSet v (addToSet v vs) = addToSet v vs"
  by (simp add: addToSet_def)

lemma count_list_distinct: "distinct vs \<Longrightarrow> v \<in> set vs \<Longrightarrow> count_list vs v = 1"
  by (induction vs) auto

lemma count_addToSet: "distinct vs \<Longrightarrow> count_list (addToSet v vs) v = 1"
  by (simp add: addToSet_def count_list_distinct)

lemma distinct_addToSet: "distinct vs \<Longrightarrow> distinct (addToSet v vs)"
  by (simp add: addToSet_def)

lemma addVideoToPlaylist_owner:
  assumes "findOne (\<lambda>x. playlist_id x = i) (playlists s) = Some pl"
    and "playlist_owner pl = Some u"
    and "findOne (\<lambda>x. video_id x = v) (videos s) = Some vd"
  shows "addVideoToPlaylist s (Some u) (Hex i) (Hex v) =
     (Inr (res_status_json 200
             (new_ApiResponse 200
                (Some (pl\<lparr>playlist_videos := addToSet v (playlist_videos pl)\<rparr>))
                (Some ''Video added to playlist successfully''))),
      s\<lparr>playlists := updateOne (\<lambda>x. playlist_id x = i)
                         (\<lambda>x. x\<lparr>playlist_videos := addToSet v (playlist_videos x)\<rparr>)
                         (playlists s)\<rparr>)"
proof -
  have i: "playlist_id pl = i" using assms(1) by (auto dest: findOne_SomeD)
  have "findOne (\<lambda>x. playlist_id x = i)
          (updateOne (\<lambda>x. playlist_id x = i)
             (\<lambda>x. x\<lparr>playlist_videos := addToSet v (playlist_videos x)\<rparr>) (playlists s))
        = Some (pl\<lparr>playlist_videos := addToSet v (playlist_videos pl)\<rparr>)"
    using assms(1) by (rule findOne_updateOne) simp
  then show ?thesis
    using assms i
    by (simp add: addVideoToPlaylist_def castObjectId_def owner_differs_def Let_def)
qed

text \<open>
  C6. Adding the same video to a playlist twice, as its owner, succeeds both times and
  leaves exactly one membership entry of the video; the second call changes nothing in
  the store. The playlist's videos are a set (no duplicates) to begin with.
\<close>

theorem addVideoToPlaylist_twice:
  assumes "findOne (\<lambda>x. playlist_id x = i) (playlists s) = Some pl"
    and "playlist_owner pl = Some u"
    and "findOne (\<lambda>x. video_id x = v) (videos s) = Some vd"
    and "distinct (playlist_videos pl)"
  shows "sent_status (fst (addVideoToPlaylist s (Some u) (Hex i) (Hex v))) = Some 200
   \<and> sent_status (fst (addVideoToPlaylist (snd (addVideoToPlaylist s (Some u) (Hex i) (Hex v)))
                         (Some u) (Hex i) (Hex v))) = Some 200
   \<and> membership (snd (addVideoToPlaylist (snd (addVideoToPlaylist s (Some u) (Hex i) (Hex v)))
                         (Some u) (Hex i) (Hex v))) i v = Some 1
   \<and> snd (addVideoToPlaylist (snd (addVideoToPlaylist s (Some u) (Hex i) (Hex v)))
            (Some u) (Hex i) (Hex v))
       = snd (addVideoToPlaylist s (Some u) (Hex i) (Hex v))"
proof -
  let ?f = "\<lambda>x. x\<lparr>playlist_videos := addToSet v (playlist_videos x)\<rparr>"
  let ?ps = "updateOne (\<lambda>x. playlist_id x = i) ?f (playlists s)"
  let ?s1 = "s\<lparr>playlists := ?ps\<rparr>"
  have r1: "addVideoToPlaylist s (Some u) (Hex i) (Hex v) =
     (Inr (res_status_json 200
             (new_ApiResponse 200 (Some (?f pl))
                (Some ''Video added to playlist successfully''))), ?s1)"
    using assms(1-3) by (rule addVideoToPlaylist_owner)
  have f1: "findOne (\<lambda>x. playlist_id x = i) (playlists ?s1) = Some (?f pl)"
    using findOne_updateOne [OF assms(1), of ?f] by simp
  have o1: "playlist_owner (?f pl) = Some u" using assms(2) by simp
  have v1: "findOne (\<lambda>x. video_id x = v) (videos ?s1) = Some vd" using assms(3) by simp
  have idem: "?f (?f pl) = ?f pl" by (simp add: addToSet_idem)
  have same: "updateOne (\<lambda>x. playlist_id x = i) ?f (playlists ?s1) = playlists ?s1"
    using f1 idem by (rule updateOne_fixed)
  have r2: "addVideoToPlaylist ?s1 (Some u) (Hex i) (Hex v) =
     (Inr (res_status_json 200
             (new_ApiResponse 200 (Some (?f (?f pl)))
                (Some ''Video added to playlist successfully''))),
      ?s1\<lparr>playlists := updateOne (\<lambda>x. playlist_id x = i) ?f (playlists ?s1)\<rparr>)"
    using f1 o1 v1 by (rule addVideoToPlaylist_owner)
  have s2: "snd (addVideoToPlaylist ?s1 (Some u) (Hex i) (Hex v)) = ?s1"
    unfolding r2 using same by simp
  have m: "membership ?s1 i v = Some 1"
    using f1 count_addToSet [OF assms(4), of v] by (simp add: membership_def)
  show ?thesis
    unfolding r1 using s2 m r2
    by (simp add: sent_status_def res_status_json_def)
qed

theorem addVideoToPlaylist_twice_witness:
  "membership (snd (addVideoToPlaylist (snd (addVideoToPlaylist example_store (Some 1) (Hex 40) (Hex 10)))
                         (Some 1) (Hex 40) (Hex 10))) 40 10 = Some 1
   \<and> membership example_store 40 10 = Some 0"
proof -
  have p: "findOne (\<lambda>x. playlist_id x = 40) (playlists example_store)
             = Some (hd (playlists example_store))"
    and ow: "playlist_owner (hd (playlists example_store)) = Some 1"
    and v: "findOne (\<lambda>x. video_id x = 10) (videos example_store)
             = Some (hd (videos example_store))"
    and d: "distinct (playlist_videos (hd (playlists example_store)))"
    by (simp_all add: example_store_def findOne_def)
  have m: "membership example_store 40 10 = Some 0"
    by (simp add: membership_def example_store_def findOne_def)
  have "membership (snd (addVideoToPlaylist (snd (addVideoToPlaylist example_store (Some 1) (Hex 40) (Hex 10)))
                         (Some 1) (Hex 40) (Hex 10))) 40 10 = Some 1"
    using addVideoToPlaylist_twice [OF p ow v d] by blast
  then show ?thesis using m by simp
qed

section \<open>The comment listing\<close>

lemma length_commentsAggregate: "length (commentsAggregate s w v) = commentCount s v"
  by (simp add: commentsAggregate_def commentCount_def)

lemma page_arith:
  assumes "1 \<le> p" and "0 \<le> l"
  shows "int (min (n - nat ((p - 1) * l)) (nat l)) = min l (max 0 (int n - (p - 1) * l))"
proof -
  have "0 \<le> (p - 1) * l" using assms by simp
  then show ?thesis using assms(2) by (simp add: min_def max_def) linarith
qed

text \<open>
  Where the constructor can be called without \<open>new\<close>, the listing pages as the spec
  says: on a video with \<open>commentCount s v\<close> comments, page \<open>p\<close> of limit \<open>l\<close> skips the
  first \<open>(p-1)*l\<close> comments of the sorted aggregate and takes \<open>l\<close>.
\<close>

lemma getVideoComments_page:
  assumes "findOne (\<lambda>x. video_id x = v) (videos s) = Some vd"
    and "query_number qpage 1 = Num p" and "query_number qlimit 10 = Num l"
    and "1 \<le> p" and "0 \<le> l"
  shows "sent_data (getVideoComments Callable s w (Hex v) qpage qlimit) =
           Some \<lparr>docs = take (nat l) (drop (nat ((p - 1) * l)) (commentsAggregate s w v)),
                 totalDocs = commentCount s v, page = p, limit = l\<rparr>
   \<and> int (length (comment_rows (getVideoComments Callable s w (Hex v) qpage qlimit)))
       = min l (max 0 (int (commentCount s v) - (p - 1) * l))"
proof -
  have r: "getVideoComments Callable s w (Hex v) qpage qlimit =
     Inr (res_status_json 200
            (new_ApiResponse 200
               \<lparr>docs = take (nat l) (drop (nat ((p - 1) * l)) (commentsAggregate s w v)),
                 totalDocs = commentCount s v, page = p, limit = l\<rparr>
               (Some ''Comments fetched successfully'')))"
    using assms
    by (simp add: getVideoComments_def castObjectId_def ObjectId_call_def aggregatePaginate_def
        length_commentsAggregate)
  show ?thesis
    unfolding r using page_arith [OF assms(4,5), of "commentCount s v"]
    by (simp add: sent_data_def comment_rows_def res_status_json_def new_ApiResponse_def
        length_commentsAggregate)
qed

lemma fifteen_comments_facts:
  "findOne (\<lambda>x. video_id x = 10) (videos fifteen_comments) = Some (hd (videos fifteen_comments))"
  "commentCount fifteen_comments 10 = 15"
  by (simp_all add: fifteen_comments_def empty_store_def findOne_def commentCount_def o_def)

lemma getVideoComments_page_fifteen:
  "int (length (comment_rows
          (getVideoComments Callable fifteen_comments None (Hex 10)
             (Some (Num 1)) (Some (Num 10))))) = 10
   \<and> int (length (comment_rows
          (getVideoComments Callable fifteen_comments None (Hex 10)
             (Some (Num 2)) (Some (Num 10))))) = 5"
proof -
  have q: "query_number (Some (Num 1)) 1 = Num 1" "query_number (Some (Num 2)) 1 = Num 2"
      "query_number (Some (Num 10)) 10 = Num 10"
    by (simp_all add: query_number_def)
  show ?thesis
    using getVideoComments_page [OF fifteen_comments_facts(1) q(1) q(3), of None]
      getVideoComments_page [OF fifteen_comments_facts(1) q(2) q(3), of None]
      fifteen_comments_facts(2)
    by simp
qed

text \<open>
  C7. The code, where the constructor is a class: for every request that finds the
  video, whatever the caller, the page and the limit, the bare call
  \<open>mongoose.Types.ObjectId(videoId)\<close> throws a \<open>TypeError\<close> before the aggregate is
  built, and no comment is returned.
\<close>

theorem getVideoComments_throws:
  assumes "findOne (\<lambda>x. video_id x = v) (videos s) = Some vd"
  shows "getVideoComments ClassOnly s w (Hex v) qpage qlimit = Inl TypeError
   \<and> comment_rows (getVideoComments ClassOnly s w (Hex v) qpage qlimit) = []"
  using assms
  by (simp add: getVideoComments_def castObjectId_def ObjectId_call_def comment_rows_def)

theorem getVideoComments_throws_witness:
  "commentCount fifteen_comments 10 = 15
   \<and> getVideoComments ClassOnly fifteen_comments None (Hex 10) (Some (Num 2)) (Some (Num 10))
       = Inl TypeError
   \<and> comment_rows
       (getVideoComments ClassOnly fifteen_comments None (Hex 10) (Some (Num 2)) (Some (Num 10)))
       = []"
  using getVideoComments_throws [OF fifteen_comments_facts(1), of None "Some (Num 2)" "Some (Num 10)"]
    fifteen_comments_facts(2)
  by (simp add: comment_rows_def)

section \<open>Listings without an identity\<close>

lemma tweet_rows_subset:
  "set (tweet_rows (getUserTweets s w userId)) \<subseteq> tweet_row s w ` set (tweets s)"
  by (auto simp: tweet_rows_def getUserTweets_def castObjectId_def res_status_json_def
      new_ApiResponse_def split: param.splits)

lemma comment_rows_subset:
  "set (comment_rows (getVideoComments ctor s w videoId qp ql))
     \<subseteq> comment_row s w ` set (comments s)"
  by (auto simp: comment_rows_def getVideoComments_def castObjectId_def ObjectId_call_def
      aggregatePaginate_def commentsAggregate_def res_status_json_def new_ApiResponse_def
      split: param.splits option.splits number.splits if_splits constructor.splits
      dest!: in_set_takeD in_set_dropD)

lemma null_not_in_likedBy_path: "\<not> in_array (to_bson None) (likedBy_path ls)"
  by (auto simp: in_array_def to_bson_def likedBy_path_def)

lemma length_tweet_rows:
  "length (tweet_rows (getUserTweets s w userId)) = length (tweet_rows (getUserTweets s w' userId))"
  by (simp add: tweet_rows_def getUserTweets_def castObjectId_def res_status_json_def
      new_ApiResponse_def split: param.splits)

lemma length_comment_rows:
  "length (comment_rows (getVideoComments ctor s w videoId qp ql))
     = length (comment_rows (getVideoComments ctor s w' videoId qp ql))"
  by (simp add: comment_rows_def getVideoComments_def castObjectId_def ObjectId_call_def
      aggregatePaginate_def length_commentsAggregate res_status_json_def new_ApiResponse_def
      split: param.splits option.splits number.splits constructor.splits)

lemma succeeded_getVideoComments:
  "succeeded (getVideoComments ctor s w videoId qp ql)
     = succeeded (getVideoComments ctor s w' videoId qp ql)"
  by (simp add: succeeded_def getVideoComments_def castObjectId_def ObjectId_call_def
      aggregatePaginate_def split: param.splits option.splits number.splits constructor.splits)

text \<open>
  The listing of a user's tweets does what the spec asks without an identity: it
  succeeds for every valid user id, with as many items as for any caller, each with
  \<open>isLiked\<close> false.
\<close>

lemma getUserTweets_unauthenticated:
  "sent_status (getUserTweets s None (Hex i)) = Some 200
   \<and> length (tweet_rows (getUserTweets s None (Hex i)))
       = length (tweet_rows (getUserTweets s w (Hex i)))
   \<and> list_all (\<lambda>r. tv_isLiked r = False) (tweet_rows (getUserTweets s None (Hex i)))"
proof (intro conjI)
  show "sent_status (getUserTweets s None (Hex i)) = Some 200"
    by (simp add: sent_status_def getUserTweets_def castObjectId_def res_status_json_def)
  show "length (tweet_rows (getUserTweets s None (Hex i)))
       = length (tweet_rows (getUserTweets s w (Hex i)))"
    by (rule length_tweet_rows)
  show "list_all (\<lambda>r. tv_isLiked r = False) (tweet_rows (getUserTweets s None (Hex i)))"
    unfolding list_all_iff
  proof
    fix r assume "r \<in> set (tweet_rows (getUserTweets s None (Hex i)))"
    then obtain t where "r = tweet_row s None t" using tweet_rows_subset by blast
    then show "tv_isLiked r = False"
      using null_not_in_likedBy_path by (simp add: tweet_row_def)
  qed
qed

text \<open>
  So does the listing of a video's comments where the constructor can be called: the
  items it returns without an identity all have \<open>isLiked\<close> false, and it succeeds
  exactly when it does for a caller with an identity.
\<close>

lemma getVideoComments_unauthenticated:
  "list_all (\<lambda>r. cv_isLiked r = False) (comment_rows (getVideoComments ctor s None videoId qp ql))
   \<and> succeeded (getVideoComments ctor s None videoId qp ql)
       = succeeded (getVideoComments ctor s w videoId qp ql)"
proof (intro conjI)
  show "list_all (\<lambda>r. cv_isLiked r = False)
          (comment_rows (getVideoComments ctor s None videoId qp ql))"
    unfolding list_all_iff
  proof
    fix r assume "r \<in> set (comment_rows (getVideoComments ctor s None videoId qp ql))"
    then obtain c where "r = comment_row s None c" using comment_rows_subset by blast
    then show "cv_isLiked r = False"
      using null_not_in_likedBy_path by (simp add: comment_row_def)
  qed
qed (rule succeeded_getVideoComments)

lemma liked_store_callable:
  "map cv_isLiked (comment_rows (getVideoComments Callable liked_store (Some 2) (Hex 10) None None))
     = [True]"
  "map cv_isLiked (comment_rows (getVideoComments Callable liked_store None (Hex 10) None None))
     = [False]"
  "map tv_isLiked (tweet_rows (getUserTweets liked_store (Some 2) (Hex 1))) = [True]"
  by code_simp+

text \<open>
  C8. The code at a request without identity: the tweet listing succeeds with
  \<open>isLiked\<close> false, and the comment listing of an existing video throws the
  \<open>TypeError\<close> of the bare constructor call where the constructor is a class, as it does
  for a caller with an identity.
\<close>

theorem unauthenticated_listings:
  "sent_status (getUserTweets liked_store None (Hex 1)) = Some 200
   \<and> map tv_isLiked (tweet_rows (getUserTweets liked_store None (Hex 1))) = [False]
   \<and> getVideoComments ClassOnly liked_store None (Hex 10) None None = Inl TypeError
   \<and> getVideoComments ClassOnly liked_store (Some 2) (Hex 10) None None = Inl TypeError"
  by code_simp

section \<open>Likes of comments and tweets in the listings\<close>



lemma list_all_remove1: "list_all P xs \<Longrightarrow> list_all P (remove1 d xs)"
  by (induction xs) auto












section \<open>Invariants of the store\<close>

text \<open>
  The hypotheses on the store in the claims above are kept by the operations: the toggles
  keep the ids of the likes unique (above), keep at most one like record per
  (user, video) pair, and make only likes of the three shapes of \<open>toggle_made\<close>.
\<close>

lemma toggleVideoLike_keeps_single:
  assumes ids: "distinct (map like_id (likes s))"
    and one: "\<And>a b. videoLikeCount s a b \<le> 1"
  shows "videoLikeCount (snd (toggleVideoLike now s (Some u) (Hex v))) u' v' \<le> 1"
proof (cases "videoLikes s u v")
  case Nil
  then have "videoLikeCount s u v = 0" by (simp add: videoLikeCount_def)
  then show ?thesis
    using Nil toggleVideoLike_once [OF ids, of now u v] one [of u' v']
    by (auto simp: videoLikeCount_def videoLikes_def)
next
  case (Cons d ds)
  have "length (filter (\<lambda>l. like_video l = Some v' \<and> likedBy l = Some u') (remove1 d (likes s)))
          \<le> length (filter (\<lambda>l. like_video l = Some v' \<and> likedBy l = Some u') (likes s))"
    by (simp add: filter_remove1 length_remove1)
  then show ?thesis
    using Cons toggleVideoLike_once [OF ids, of now u v] one [of u' v']
    by (simp add: videoLikeCount_def videoLikes_def)
qed

lemma toggleVideoLike_keeps_toggle_made:
  assumes "list_all toggle_made (likes s)" and "distinct (map like_id (likes s))"
  shows "list_all toggle_made (likes (snd (toggleVideoLike now s (Some u) (Hex v))))"
  using assms(1) toggleVideoLike_once [OF assms(2), of now u v]
  by (cases "videoLikes s u v") (simp_all add: list_all_remove1 toggle_made_def)

lemma list_all_updateOne:
  "list_all P xs \<Longrightarrow> (\<And>x. P x \<Longrightarrow> P (f x)) \<Longrightarrow> list_all P (updateOne q f xs)"
  by (induction xs) auto

text \<open>\<open>addVideoToPlaylist\<close> keeps the videos of every playlist free of duplicates.\<close>

lemma addVideoToPlaylist_keeps_sets:
  assumes "list_all (\<lambda>x. distinct (playlist_videos x)) (playlists s)"
  shows "list_all (\<lambda>x. distinct (playlist_videos x))
           (playlists (snd (addVideoToPlaylist s w playlistId videoId)))"
  using assms
  by (auto simp: addVideoToPlaylist_def castObjectId_def Let_def distinct_addToSet
      intro!: list_all_updateOne split: param.splits option.splits sum.splits bool.splits)

end
